theory Spec2Isabelle
  imports Main "HOL-Library.Char_ord" "HOL-Library.List_Lexorder"
begin

section \<open>The BigEarthNet dataset adapter (src/inference/datasets/bigearthnet.py)\<close>

text \<open>
  A shallow embedding of the class \<open>BigEarthNet\<close>. Python strings are \<open>string\<close>
  (a \<open>char\<close> stands for a code point below 256, ordered by its code as Python orders
  strings), Python integers are \<open>int\<close>, every exception the source can raise is a
  value of \<open>error\<close>, and the file system, the class-level vocabularies and the trace
  of I/O calls are an explicit \<open>world\<close> passed through every method.
\<close>

subsection \<open>Exceptions\<close>

datatype error =
    AssertionError
  | KeyError string
  | IndexError
  | ValueError
  | RuntimeError
  | OSError string

subsection \<open>Python string and list primitives\<close>

text \<open>\<open>str.isspace\<close> on one code point below 256.\<close>

definition py_isspace :: "char \<Rightarrow> bool" where
  "py_isspace c = ((of_char c :: nat) \<in> set [9, 10, 11, 12, 13, 28, 29, 30, 31, 32, 133, 160])"

text \<open>\<open>str.strip()\<close>: leading and trailing whitespace removed.\<close>

definition py_strip :: "string \<Rightarrow> string" where
  "py_strip s = rev (dropWhile py_isspace (rev (dropWhile py_isspace s)))"

text \<open>The line boundaries of \<open>str.splitlines\<close> below 256; \<open>\r\n\<close> is one boundary.\<close>

definition py_linebreak :: "char \<Rightarrow> bool" where
  "py_linebreak c = ((of_char c :: nat) \<in> set [10, 11, 12, 13, 28, 29, 30, 133])"

text \<open>
  \<open>str.splitlines()\<close>, with the line collected so far (reversed) as accumulator: a
  boundary closes the line, and text left after the last boundary is a last line.
\<close>

fun splitlines_acc :: "string \<Rightarrow> string \<Rightarrow> string list" where
  "splitlines_acc acc [] = (if acc = [] then [] else [rev acc])"
| "splitlines_acc acc (c # cs) =
     (if py_linebreak c then
        (case cs of
           d # ds \<Rightarrow>
             if (of_char c :: nat) = 13 \<and> (of_char d :: nat) = 10
             then rev acc # splitlines_acc [] ds
             else rev acc # splitlines_acc [] cs
         | [] \<Rightarrow> rev acc # splitlines_acc [] cs)
      else splitlines_acc (c # acc) cs)"

definition py_splitlines :: "string \<Rightarrow> string list" where
  "py_splitlines s = splitlines_acc [] s"

text \<open>\<open>str.split(sep)\<close> for a one-character separator: never the empty list.\<close>

fun split_acc :: "char \<Rightarrow> string \<Rightarrow> string \<Rightarrow> string list" where
  "split_acc sep acc [] = [rev acc]"
| "split_acc sep acc (c # cs) =
     (if c = sep then rev acc # split_acc sep [] cs else split_acc sep (c # acc) cs)"

definition py_split :: "char \<Rightarrow> string \<Rightarrow> string list" where
  "py_split sep s = split_acc sep [] s"

text \<open>\<open>str.startswith\<close> and \<open>str.endswith\<close>.\<close>

definition startswith :: "string \<Rightarrow> string \<Rightarrow> bool" where
  "startswith s p = (take (length p) s = p)"

definition endswith :: "string \<Rightarrow> string \<Rightarrow> bool" where
  "endswith s p = (length p \<le> length s \<and> drop (length s - length p) s = p)"

text \<open>
  \<open>os.path.join\<close> (posixpath): an absolute component replaces what came before, and a
  separator is added unless the path so far is empty or ends with one.
\<close>

definition join_step :: "string \<Rightarrow> string \<Rightarrow> string" where
  "join_step path b =
     (if startswith b ''/'' then b
      else if path = [] \<or> endswith path ''/'' then path @ b
      else path @ ''/'' @ b)"

definition os_path_join :: "string \<Rightarrow> string list \<Rightarrow> string" where
  "os_path_join a p = foldl join_step a p"

text \<open>\<open>xs[i]\<close> on a Python list: a negative index counts from the end.\<close>

definition py_index :: "'a list \<Rightarrow> int \<Rightarrow> error + 'a" where
  "py_index xs i =
     (if 0 \<le> i \<and> i < int (length xs) then Inr (xs ! nat i)
      else if i < 0 \<and> - int (length xs) \<le> i then Inr (xs ! nat (int (length xs) + i))
      else Inl IndexError)"

text \<open>\<open>enumerate(xs)\<close>.\<close>

definition py_enumerate :: "'a list \<Rightarrow> (int \<times> 'a) list" where
  "py_enumerate xs = zip (map int [0 ..< length xs]) xs"

text \<open>\<open>d[k]\<close> on a dictionary with string keys, written as an association list.\<close>

definition dict_get :: "(string \<times> 'v) list \<Rightarrow> string \<Rightarrow> error + 'v" where
  "dict_get d k = (case map_of d k of None \<Rightarrow> Inl (KeyError k) | Some v \<Rightarrow> Inr v)"

subsection \<open>Tensors\<close>

text \<open>
  A tensor is its shape and its elements in row-major order. The element type of an
  image is left open: nothing below computes with pixel values.
\<close>

record 'a tensor =
  shape :: "nat list"
  elems :: "'a list"

text \<open>\<open>torch.zeros(n, dtype=torch.long)\<close>; a negative size raises.\<close>

definition torch_zeros :: "int \<Rightarrow> error + int tensor" where
  "torch_zeros n =
     (if n < 0 then Inl RuntimeError
      else Inr \<lparr>shape = [nat n], elems = replicate (nat n) 0\<rparr>)"

text \<open>
  \<open>target[indices] = v\<close> on a one-dimensional tensor: every index must lie in
  \<open>[-n, n)\<close>, a negative one counting from the end.
\<close>

fun index_put_list :: "int list \<Rightarrow> int list \<Rightarrow> int \<Rightarrow> error + int list" where
  "index_put_list target [] v = Inr target"
| "index_put_list target (i # rest) v =
     (let n = int (length target)
      in if - n \<le> i \<and> i < n
         then index_put_list (target[nat (if i < 0 then n + i else i) := v]) rest v
         else Inl IndexError)"

definition index_put :: "int tensor \<Rightarrow> int list \<Rightarrow> int \<Rightarrow> error + int tensor" where
  "index_put target indices v =
     (case index_put_list (elems target) indices v of
        Inl e \<Rightarrow> Inl e
      | Inr xs \<Rightarrow> Inr (target\<lparr>elems := xs\<rparr>))"

text \<open>
  \<open>Tensor.squeeze(dim)\<close>: the dimension is removed when its size is 1, and the tensor
  is returned as it is otherwise; a dimension the tensor does not have raises.
\<close>

definition squeeze :: "'a tensor \<Rightarrow> nat \<Rightarrow> error + 'a tensor" where
  "squeeze t d =
     (if d < length (shape t)
      then Inr (if shape t ! d = 1
                then t\<lparr>shape := take d (shape t) @ drop (Suc d) (shape t)\<rparr>
                else t)
      else Inl IndexError)"

subsection \<open>Class-level tables\<close>

text \<open>The value of \<open>class_sets[19]\<close> when the module is loaded.\<close>

definition class_set_19 :: "string list" where
  "class_set_19 =
    [''Urban fabric'',
     ''Industrial or commercial units'',
     ''Arable land'',
     ''Permanent crops'',
     ''Pastures'',
     ''Complex cultivation patterns'',
     ''Land principally occupied by agriculture, with significant areas of natural vegetation'',
     ''Agro-forestry areas'',
     ''Broad-leaved forest'',
     ''Coniferous forest'',
     ''Mixed forest'',
     ''Natural grassland and sparsely vegetated areas'',
     ''Moors, heathland and sclerophyllous vegetation'',
     ''Transitional woodland, shrub'',
     ''Beaches, dunes, sands'',
     ''Inland wetlands'',
     ''Coastal wetlands'',
     ''Inland waters'',
     ''Marine waters'']"

text \<open>The value of \<open>class_sets[43]\<close> when the module is loaded.\<close>

definition class_set_43 :: "string list" where
  "class_set_43 =
    [''Continuous urban fabric'',
     ''Discontinuous urban fabric'',
     ''Industrial or commercial units'',
     ''Road and rail networks and associated land'',
     ''Port areas'',
     ''Airports'',
     ''Mineral extraction sites'',
     ''Dump sites'',
     ''Construction sites'',
     ''Green urban areas'',
     ''Sport and leisure facilities'',
     ''Non-irrigated arable land'',
     ''Permanently irrigated land'',
     ''Rice fields'',
     ''Vineyards'',
     ''Fruit trees and berry plantations'',
     ''Olive groves'',
     ''Pastures'',
     ''Annual crops associated with permanent crops'',
     ''Complex cultivation patterns'',
     ''Land principally occupied by agriculture, with significant areas of natural vegetation'',
     ''Agro-forestry areas'',
     ''Broad-leaved forest'',
     ''Coniferous forest'',
     ''Mixed forest'',
     ''Natural grassland'',
     ''Moors and heathland'',
     ''Sclerophyllous vegetation'',
     ''Transitional woodland/shrub'',
     ''Beaches, dunes, sands'',
     ''Bare rock'',
     ''Sparsely vegetated areas'',
     ''Burnt areas'',
     ''Inland marshes'',
     ''Peatbogs'',
     ''Salt marshes'',
     ''Salines'',
     ''Intertidal flats'',
     ''Water courses'',
     ''Water bodies'',
     ''Coastal lagoons'',
     ''Estuaries'',
     ''Sea and ocean'']"

text \<open>\<open>label_converter\<close>: the 43-class index to the 19-class index, in source order.\<close>

definition label_converter :: "(int \<times> int) list" where
  "label_converter =
    [(0, 0), (1, 0), (2, 1), (11, 2), (12, 2), (13, 2), (14, 3), (15, 3), (16, 3),
     (18, 3), (17, 4), (19, 5), (20, 6), (21, 7), (22, 8), (23, 9), (24, 10), (25, 11),
     (31, 11), (26, 12), (27, 12), (28, 13), (29, 14), (33, 15), (34, 15), (35, 16),
     (36, 16), (38, 17), (39, 17), (40, 18), (41, 18), (42, 18)]"

text \<open>\<open>label_converter.get(idx)\<close>.\<close>

definition label_converter_get :: "int \<Rightarrow> int option" where
  "label_converter_get idx = map_of label_converter idx"

record url_entry =
  url :: string
  filename :: string
  md5 :: string
  directory :: string

text \<open>
  \<open>splits_metadata\<close>, keys in insertion order. Its entries have no directory; the
  field is left empty and never read for a split.
\<close>

definition splits_metadata :: "(string \<times> url_entry) list" where
  "splits_metadata =
    [(''train'',
      \<lparr>url = ''https://git.tu-berlin.de/rsim/BigEarthNet-MM_19-classes_models/-/raw/9a5be07346ab0884b2d9517475c27ef9db9b5104/splits/train.csv?inline=false'',
       filename = ''bigearthnet-train.csv'',
       md5 = ''623e501b38ab7b12fe44f0083c00986d'',
       directory = ''''\<rparr>),
     (''val'',
      \<lparr>url = ''https://git.tu-berlin.de/rsim/BigEarthNet-MM_19-classes_models/-/raw/9a5be07346ab0884b2d9517475c27ef9db9b5104/splits/val.csv?inline=false'',
       filename = ''bigearthnet-val.csv'',
       md5 = ''22efe8ed9cbd71fa10742ff7df2b7978'',
       directory = ''''\<rparr>),
     (''test'',
      \<lparr>url = ''https://git.tu-berlin.de/rsim/BigEarthNet-MM_19-classes_models/-/raw/9a5be07346ab0884b2d9517475c27ef9db9b5104/splits/test.csv?inline=false'',
       filename = ''bigearthnet-test.csv'',
       md5 = ''697fb90677e30571b9ac7699b7e5b432'',
       directory = ''''\<rparr>)]"

text \<open>\<open>metadata\<close>: the two archives and the directory each unpacks to.\<close>

definition metadata :: "(string \<times> url_entry) list" where
  "metadata =
    [(''s1'',
      \<lparr>url = ''https://bigearth.net/downloads/BigEarthNet-S1-v1.0.tar.gz'',
       filename = ''BigEarthNet-S1-v1.0.tar.gz'',
       md5 = ''94ced73440dea8c7b9645ee738c5a172'',
       directory = ''sentinel-1''\<rparr>),
     (''s2'',
      \<lparr>url = ''https://bigearth.net/downloads/BigEarthNet-S2-v1.0.tar.gz'',
       filename = ''BigEarthNet-S2-v1.0.tar.gz'',
       md5 = ''5a64e9ce38deb036a435a7b59494924c'',
       directory = ''sentinel-2''\<rparr>)]"

text \<open>\<open>image_size\<close>.\<close>

definition image_size :: "nat list" where
  "image_size = [120, 120]"

subsection \<open>The world: class-level state, file system, I/O trace\<close>

text \<open>
  The file system as the methods see it. \<open>glob_paths\<close> is \<open>glob.glob(pattern)\<close> in
  the order the operating system lists the entries, \<open>read_text\<close> is
  \<open>open(path).read()\<close>, and \<open>load_labels\<close> is \<open>json.load(open(path))["labels"]\<close>
  for a label file whose "labels" field is an array of strings.
\<close>

record filesystem =
  path_exists :: "string \<Rightarrow> bool"
  read_text :: "string \<Rightarrow> error + string"
  glob_paths :: "string \<Rightarrow> string list"
  load_labels :: "string \<Rightarrow> error + string list"

text \<open>Every call that touches the file system or the network leaves an event.\<close>

datatype io_event =
    PathExists string
  | OpenRead string
  | GlobCall string
  | RasterOpen string
  | ExtractArchive string
  | DownloadUrl string string string "string option"

text \<open>
  \<open>class_sets\<close> is a class attribute: one dictionary with the keys 19 and 43, shared
  by every instance. No code adds or removes a key, so the two lists are two fields.
\<close>

record world =
  class_sets_19 :: "string list"
  class_sets_43 :: "string list"
  fs :: filesystem
  io_log :: "io_event list"

text \<open>
  The imported collaborators, which are not part of this file: the archive and
  download helpers act on the file system, \<open>sort_sentinel2_bands\<close> is the sort key
  of the Sentinel-2 band files, and \<open>rasterio_read\<close> is band 1 of a raster file read
  at \<open>image_size\<close>, its samples already cast as \<open>.float()\<close> casts them.
\<close>

record 'a collaborators =
  extract_archive :: "string \<Rightarrow> filesystem \<Rightarrow> error + filesystem"
  download_url ::
    "string \<Rightarrow> string \<Rightarrow> string \<Rightarrow> string option \<Rightarrow> filesystem \<Rightarrow> error + filesystem"
  sort_sentinel2_bands :: "string \<Rightarrow> string"
  rasterio_read :: "filesystem \<Rightarrow> string \<Rightarrow> error + 'a list"

definition log_io :: "io_event \<Rightarrow> world \<Rightarrow> world" where
  "log_io ev w = w\<lparr>io_log := io_log w @ [ev]\<rparr>"

definition os_path_exists :: "string \<Rightarrow> world \<Rightarrow> bool \<times> world" where
  "os_path_exists p w = (path_exists (fs w) p, log_io (PathExists p) w)"

definition glob_glob :: "string \<Rightarrow> world \<Rightarrow> string list \<times> world" where
  "glob_glob pat w = (glob_paths (fs w) pat, log_io (GlobCall pat) w)"

definition open_read :: "string \<Rightarrow> world \<Rightarrow> (error + string) \<times> world" where
  "open_read p w = (read_text (fs w) p, log_io (OpenRead p) w)"

definition json_load_labels :: "string \<Rightarrow> world \<Rightarrow> (error + string list) \<times> world" where
  "json_load_labels p w = (load_labels (fs w) p, log_io (OpenRead p) w)"

subsection \<open>The dataset instance\<close>

text \<open>One entry of \<open>self.folders\<close>: the dictionary with the keys "s1" and "s2".\<close>

record folder =
  s1 :: string
  s2 :: string

text \<open>The sample dictionary with the keys "image" and "label".\<close>

record 'a sample =
  sample_image :: "'a tensor"
  sample_label :: "int tensor"

record 'a bigearthnet =
  root :: string
  split :: string
  bands :: string
  num_classes :: int
  transforms :: "('a sample \<Rightarrow> error + 'a sample) option"
  download :: bool
  checksum :: bool
  class2idx :: "string \<Rightarrow> int option"
  folders :: "folder list"
  other_features :: bool

text \<open>
  \<open>{c: i for i, c in enumerate(names)}\<close>: a name that occurs twice keeps its last
  index.
\<close>

definition mk_class2idx :: "string list \<Rightarrow> string \<Rightarrow> int option" where
  "mk_class2idx names = fold (\<lambda>(i, c) m. m(c \<mapsto> i)) (py_enumerate names) Map.empty"

text \<open>A list comprehension over calls that may raise stops at the first that does.\<close>

fun collect :: "(error + 'b) list \<Rightarrow> error + 'b list" where
  "collect [] = Inr []"
| "collect (r # rs) =
     (case r of
        Inl e \<Rightarrow> Inl e
      | Inr x \<Rightarrow> (case collect rs of Inl e \<Rightarrow> Inl e | Inr xs \<Rightarrow> Inr (x # xs)))"

subsection \<open>Verification, download and extraction\<close>

text \<open>\<open>_extract\<close>: everything but a split manifest is handed to \<open>extract_archive\<close>.\<close>

definition extract_file ::
  "'a collaborators \<Rightarrow> string \<Rightarrow> world \<Rightarrow> (error + unit) \<times> world" where
  "extract_file env filepath w =
     (if \<not> endswith filepath ''.csv'' then
        (case extract_archive env filepath (fs w) of
           Inl e \<Rightarrow> (Inl e, log_io (ExtractArchive filepath) w)
         | Inr fs' \<Rightarrow> (Inr (), log_io (ExtractArchive filepath) (w\<lparr>fs := fs'\<rparr>)))
      else (Inr (), w))"

text \<open>\<open>_download\<close>: the existence test is on the bare file name, as in the source.\<close>

definition download_file ::
  "'a collaborators \<Rightarrow> 'a bigearthnet \<Rightarrow> string \<Rightarrow> string \<Rightarrow> string \<Rightarrow> world
     \<Rightarrow> (error + unit) \<times> world" where
  "download_file env self u fname m w =
     (case os_path_exists fname w of
        (ex, w1) \<Rightarrow>
          if \<not> ex then
            (let digest = (if checksum self then Some m else None);
                 ev = DownloadUrl u (root self) fname digest
             in case download_url env u (root self) fname digest (fs w1) of
                  Inl e \<Rightarrow> (Inl e, log_io ev w1)
                | Inr fs' \<Rightarrow> (Inr (), log_io ev (w1\<lparr>fs := fs'\<rparr>)))
          else (Inr (), w1))"

text \<open>The two loops of \<open>_verify\<close> that fill \<open>exists\<close> with \<open>os.path.exists\<close> answers.\<close>

fun exists_each :: "string list \<Rightarrow> world \<Rightarrow> bool list \<times> world" where
  "exists_each [] w = ([], w)"
| "exists_each (p # ps) w =
     (case os_path_exists p w of
        (b, w1) \<Rightarrow> (case exists_each ps w1 of (bs, w2) \<Rightarrow> (b # bs, w2)))"

text \<open>The loop of \<open>_verify\<close> that extracts every archive already on disk.\<close>

fun extract_existing ::
  "'a collaborators \<Rightarrow> 'a bigearthnet \<Rightarrow> string list \<Rightarrow> world
     \<Rightarrow> (error + bool list) \<times> world" where
  "extract_existing env self [] w = (Inr [], w)"
| "extract_existing env self (fname # rest) w =
     (let filepath = os_path_join (root self) [fname]
      in case os_path_exists filepath w of
           (ex, w1) \<Rightarrow>
             if ex then
               (case extract_file env filepath w1 of
                  (Inl e, w2) \<Rightarrow> (Inl e, w2)
                | (Inr u, w2) \<Rightarrow>
                    (case extract_existing env self rest w2 of
                       (Inl e, w3) \<Rightarrow> (Inl e, w3)
                     | (Inr bs, w3) \<Rightarrow> (Inr (True # bs), w3)))
             else
               (case extract_existing env self rest w1 of
                  (Inl e, w3) \<Rightarrow> (Inl e, w3)
                | (Inr bs, w3) \<Rightarrow> (Inr (False # bs), w3)))"

text \<open>The last loop of \<open>_verify\<close>: download each file, then extract it.\<close>

fun download_each ::
  "'a collaborators \<Rightarrow> 'a bigearthnet \<Rightarrow> (string \<times> string \<times> string) list \<Rightarrow> world
     \<Rightarrow> (error + unit) \<times> world" where
  "download_each env self [] w = (Inr (), w)"
| "download_each env self ((u, fname, m) # rest) w =
     (case download_file env self u fname m w of
        (Inl e, w1) \<Rightarrow> (Inl e, w1)
      | (Inr x, w1) \<Rightarrow>
          (case extract_file env (os_path_join (root self) [fname]) w1 of
             (Inl e, w2) \<Rightarrow> (Inl e, w2)
           | (Inr y, w2) \<Rightarrow> download_each env self rest w2))"

text \<open>\<open>_verify\<close>.\<close>

definition verify ::
  "'a collaborators \<Rightarrow> 'a bigearthnet \<Rightarrow> world \<Rightarrow> (error + unit) \<times> world" where
  "verify env self w =
     (let keys = (if bands self = ''all'' then [''s1'', ''s2''] else [bands self])
      in case collect (map (dict_get metadata) keys) of
           Inl e \<Rightarrow> (Inl e, w)
         | Inr entries \<Rightarrow>
             (let urls = map url entries @ map (\<lambda>(k, v). url v) splits_metadata;
                  md5s = map md5 entries @ map (\<lambda>(k, v). md5 v) splits_metadata;
                  filenames_splits = map (\<lambda>(k, v). filename v) splits_metadata;
                  filenames = map filename entries @ filenames_splits;
                  directories = map directory entries
              in case exists_each
                        (map (\<lambda>f. os_path_join (root self) [f]) filenames_splits) w of
                   (ex1, w1) \<Rightarrow>
                     (case exists_each
                             (map (\<lambda>d. os_path_join (root self) [d]) directories) w1 of
                        (ex2, w2) \<Rightarrow>
                          if list_all id (ex1 @ ex2) then (Inr (), w2)
                          else
                            (case extract_existing env self filenames w2 of
                               (Inl e, w3) \<Rightarrow> (Inl e, w3)
                             | (Inr ex, w3) \<Rightarrow>
                                 if list_all id ex then (Inr (), w3)
                                 else if \<not> download self then (Inl RuntimeError, w3)
                                 else download_each env self
                                        (zip urls (zip filenames md5s)) w3))))"

subsection \<open>The sample index\<close>

text \<open>
  \<open>_load_folders\<close>. \<open>pair[0]\<close> is \<open>hd pair\<close>: \<open>str.split\<close> never returns the
  empty list (lemma \<open>py_split_not_Nil\<close>).
\<close>

definition load_folders :: "'a bigearthnet \<Rightarrow> world \<Rightarrow> (error + folder list) \<times> world" where
  "load_folders self w =
     (case dict_get splits_metadata (split self) of
        Inl e \<Rightarrow> (Inl e, w)
      | Inr entry \<Rightarrow>
          (case collect [dict_get metadata ''s1'', dict_get metadata ''s2''] of
             Inl e \<Rightarrow> (Inl e, w)
           | Inr ms \<Rightarrow>
               (let dir_s1 = directory (ms ! 0);
                    dir_s2 = directory (ms ! 1)
                in case open_read (os_path_join (root self) [filename entry]) w of
                     (Inl e, w1) \<Rightarrow> (Inl e, w1)
                   | (Inr content, w1) \<Rightarrow>
                       (let lines = py_splitlines (py_strip content);
                            pairs = map (py_split CHR '','') lines
                        in (Inr (map (\<lambda>pair.
                                       \<lparr>s1 = os_path_join (root self) [dir_s1, hd pair],
                                        s2 = os_path_join (root self) [dir_s2, hd pair]\<rparr>)
                                     pairs),
                            w1)))))"

text \<open>\<open>__len__\<close>.\<close>

definition len :: "'a bigearthnet \<Rightarrow> nat" where
  "len self = length (folders self)"

subsection \<open>Band paths, image and target\<close>

text \<open>\<open>_load_paths\<close>. \<open>sorted\<close> is stable, as \<open>sort_key\<close> is.\<close>

definition load_paths ::
  "'a collaborators \<Rightarrow> 'a bigearthnet \<Rightarrow> int \<Rightarrow> world \<Rightarrow> (error + string list) \<times> world" where
  "load_paths env self index w =
     (if bands self = ''all'' then
        (case py_index (folders self) index of
           Inl e \<Rightarrow> (Inl e, w)
         | Inr entry \<Rightarrow>
             (let folder_s1 = s1 entry;
                  folder_s2 = s2 entry
              in case glob_glob (os_path_join folder_s1 [''*.tif'']) w of
                   (paths_s1, w1) \<Rightarrow>
                     (case glob_glob (os_path_join folder_s2 [''*.tif'']) w1 of
                        (paths_s2, w2) \<Rightarrow>
                          (Inr (sort paths_s1
                                @ sort_key (sort_sentinel2_bands env) paths_s2),
                           w2))))
      else if bands self = ''s1'' then
        (case py_index (folders self) index of
           Inl e \<Rightarrow> (Inl e, w)
         | Inr entry \<Rightarrow>
             (case glob_glob (os_path_join (s1 entry) [''*.tif'']) w of
                (paths, w1) \<Rightarrow> (Inr (sort paths), w1)))
      else
        (case py_index (folders self) index of
           Inl e \<Rightarrow> (Inl e, w)
         | Inr entry \<Rightarrow>
             (case glob_glob (os_path_join (s2 entry) [''*.tif'']) w of
                (paths, w1) \<Rightarrow>
                  (Inr (sort_key (sort_sentinel2_bands env) paths), w1))))"

text \<open>The loop of \<open>_load_image\<close>: one raster read per path, in order.\<close>

fun read_bands ::
  "'a collaborators \<Rightarrow> string list \<Rightarrow> world \<Rightarrow> (error + 'a list list) \<times> world" where
  "read_bands env [] w = (Inr [], w)"
| "read_bands env (p # ps) w =
     (case rasterio_read env (fs w) p of
        Inl e \<Rightarrow> (Inl e, log_io (RasterOpen p) w)
      | Inr array \<Rightarrow>
          (case read_bands env ps (log_io (RasterOpen p) w) of
             (Inl e, w1) \<Rightarrow> (Inl e, w1)
           | (Inr images, w1) \<Rightarrow> (Inr (array # images), w1)))"

text \<open>\<open>_load_image\<close>; \<open>np.stack\<close> of no array raises.\<close>

definition load_image ::
  "'a collaborators \<Rightarrow> 'a bigearthnet \<Rightarrow> int \<Rightarrow> world \<Rightarrow> (error + 'a tensor) \<times> world" where
  "load_image env self index w =
     (case load_paths env self index w of
        (Inl e, w1) \<Rightarrow> (Inl e, w1)
      | (Inr paths, w1) \<Rightarrow>
          (case read_bands env paths w1 of
             (Inl e, w2) \<Rightarrow> (Inl e, w2)
           | (Inr images, w2) \<Rightarrow>
               if images = [] then (Inl ValueError, w2)
               else (Inr \<lparr>shape = length images # image_size, elems = concat images\<rparr>,
                     w2)))"

text \<open>\<open>self.class2idx[label]\<close>: a name that is not a key raises.\<close>

definition lookup_label :: "'a bigearthnet \<Rightarrow> string \<Rightarrow> error + int" where
  "lookup_label self label =
     (case class2idx self label of None \<Rightarrow> Inl (KeyError label) | Some i \<Rightarrow> Inr i)"

text \<open>
  The two comprehensions of the 43 to 19 reduction: \<open>label_converter.get(idx)\<close> for
  every index, then the results that are not \<open>None\<close>.
\<close>

definition mapped_indices :: "int list \<Rightarrow> int list" where
  "mapped_indices indices =
     (let indices_optional = map label_converter_get indices
      in concat (map (\<lambda>idx. case idx of None \<Rightarrow> [] | Some i \<Rightarrow> [i]) indices_optional))"

text \<open>
  The second half of \<open>_load_target\<close>: from the label names of one file to the
  multi-hot target.
\<close>

definition labels_to_target :: "'a bigearthnet \<Rightarrow> string list \<Rightarrow> error + int tensor" where
  "labels_to_target self labels =
     (case collect (map (lookup_label self) labels) of
        Inl e \<Rightarrow> Inl e
      | Inr indices \<Rightarrow>
          (let indices' =
                 (if num_classes self = 19 \<or> num_classes self = 20
                  then mapped_indices indices
                  else indices)
           in case torch_zeros (num_classes self) of
                Inl e \<Rightarrow> Inl e
              | Inr target \<Rightarrow> index_put target indices' 1))"

text \<open>\<open>_load_target\<close>; \<open>glob(...)[0]\<close> of no match raises.\<close>

definition load_target ::
  "'a bigearthnet \<Rightarrow> int \<Rightarrow> world \<Rightarrow> (error + int tensor) \<times> world" where
  "load_target self index w =
     (case py_index (folders self) index of
        Inl e \<Rightarrow> (Inl e, w)
      | Inr entry \<Rightarrow>
          (let folder = (if bands self = ''s2'' then s2 entry else s1 entry)
           in case glob_glob (os_path_join folder [''*.json'']) w of
                (matches, w1) \<Rightarrow>
                  (case matches of
                     [] \<Rightarrow> (Inl IndexError, w1)
                   | path # others \<Rightarrow>
                       (case json_load_labels path w1 of
                          (Inl e, w2) \<Rightarrow> (Inl e, w2)
                        | (Inr labels, w2) \<Rightarrow> (labels_to_target self labels, w2)))))"

subsection \<open>Indexed access and construction\<close>

text \<open>\<open>__getitem__\<close>.\<close>

definition getitem ::
  "'a collaborators \<Rightarrow> 'a bigearthnet \<Rightarrow> int \<Rightarrow> world
     \<Rightarrow> (error + 'a tensor \<times> int tensor) \<times> world" where
  "getitem env self index w =
     (case load_image env self index w of
        (Inl e, w1) \<Rightarrow> (Inl e, w1)
      | (Inr img, w1) \<Rightarrow>
          (case load_target self index w1 of
             (Inl e, w2) \<Rightarrow> (Inl e, w2)
           | (Inr label, w2) \<Rightarrow>
               (let sample = \<lparr>sample_image = img, sample_label = label\<rparr>
                in case (case transforms self of
                           None \<Rightarrow> Inr sample
                         | Some f \<Rightarrow> f sample) of
                     Inl e \<Rightarrow> (Inl e, w2)
                   | Inr sample' \<Rightarrow>
                       if length (shape (sample_image sample')) = 4 then
                         (case squeeze (sample_image sample') 1 of
                            Inl e \<Rightarrow> (Inl e, w2)
                          | Inr img' \<Rightarrow> (Inr (img', sample_label sample'), w2))
                       else (Inr (sample_image sample', sample_label sample'), w2))))"

text \<open>
  \<open>__init__\<close>. The three assertions come first; \<open>folders\<close> and \<open>other_features\<close> are
  not yet set while \<open>_verify\<close> and \<open>_load_folders\<close> run, and neither reads them.
\<close>

definition init_self ::
  "string \<Rightarrow> string \<Rightarrow> string \<Rightarrow> int \<Rightarrow> ('a sample \<Rightarrow> error + 'a sample) option
     \<Rightarrow> bool \<Rightarrow> bool \<Rightarrow> world \<Rightarrow> 'a bigearthnet" where
  "init_self root' split' bands' num_classes' transforms' download' checksum' w =
     \<lparr>root = root', split = split', bands = bands', num_classes = num_classes',
      transforms = transforms', download = download', checksum = checksum',
      class2idx = mk_class2idx (class_sets_43 w),
      folders = [], other_features = False\<rparr>"

definition init ::
  "'a collaborators \<Rightarrow> string \<Rightarrow> string \<Rightarrow> string \<Rightarrow> int
     \<Rightarrow> ('a sample \<Rightarrow> error + 'a sample) option \<Rightarrow> bool \<Rightarrow> bool \<Rightarrow> bool \<Rightarrow> world
     \<Rightarrow> (error + 'a bigearthnet) \<times> world" where
  "init env root' split' bands' num_classes' transforms' download' checksum'
        other_features' w =
     (if split' \<notin> set (map fst splits_metadata) then (Inl AssertionError, w)
      else if bands' \<notin> set [''s1'', ''s2'', ''all''] then (Inl AssertionError, w)
      else if num_classes' \<notin> set [43, 19] then (Inl AssertionError, w)
      else
        (let self = init_self root' split' bands' num_classes' transforms' download'
                      checksum' w
         in case verify env self w of
              (Inl e, w1) \<Rightarrow> (Inl e, w1)
            | (Inr u, w1) \<Rightarrow>
                (case load_folders self w1 of
                   (Inl e, w2) \<Rightarrow> (Inl e, w2)
                 | (Inr fl, w2) \<Rightarrow>
                     (let self1 = self\<lparr>folders := fl, other_features := other_features'\<rparr>
                      in if other_features self1
                            \<and> ''Other features'' \<notin> set (class_sets_19 w2)
                         then
                           (Inr (self1\<lparr>num_classes := num_classes self1 + 1\<rparr>),
                            w2\<lparr>class_sets_19 := class_sets_19 w2 @ [''Other features''],
                               class_sets_43 := class_sets_43 w2 @ [''Other features'']\<rparr>)
                         else (Inr self1, w2)))))"

subsection \<open>Notions used to state the properties\<close>

text \<open>Two worlds with the same class-level vocabularies.\<close>

definition same_class_sets :: "world \<Rightarrow> world \<Rightarrow> bool" where
  "same_class_sets w w' =
     (class_sets_19 w' = class_sets_19 w \<and> class_sets_43 w' = class_sets_43 w)"

text \<open>
  The I/O of reading the single JSON label file of a folder: the glob for
  \<open>*.json\<close> in it, then the first match opened.
\<close>

definition label_reads :: "filesystem \<Rightarrow> string \<Rightarrow> io_event list" where
  "label_reads f dir =
     GlobCall (os_path_join dir [''*.json''])
     # (case glob_paths f (os_path_join dir [''*.json'']) of
          [] \<Rightarrow> []
        | path # others \<Rightarrow> [OpenRead path])"

text \<open>The number of non-empty lines of a manifest text, in the words of the specification.\<close>

definition nonempty_line_count :: "string \<Rightarrow> nat" where
  "nonempty_line_count content = length (filter (\<lambda>line. line \<noteq> []) (py_splitlines content))"

text \<open>The folder record \<open>_load_folders\<close> builds from one manifest line.\<close>

definition folder_of_line :: "string \<Rightarrow> string \<Rightarrow> folder" where
  "folder_of_line r line =
     \<lparr>s1 = os_path_join r [''sentinel-1'', hd (py_split CHR '','' line)],
      s2 = os_path_join r [''sentinel-2'', hd (py_split CHR '','' line)]\<rparr>"

subsection \<open>A small data set on disk\<close>

text \<open>
  Two samples \<open>p1\<close> and \<open>p2\<close> under \<open>data\<close>, the three manifests and both source
  directories present, the vocabularies as the module loads them. The label files of
  \<open>p1\<close> differ between the two sources, and the Sentinel-2 label file of \<open>p2\<close> holds
  a name outside the vocabulary.
\<close>

definition demo_fs :: filesystem where
  "demo_fs =
     \<lparr>path_exists = (\<lambda>p. p \<in> set [''data/bigearthnet-train.csv'', ''data/bigearthnet-val.csv'',
                                   ''data/bigearthnet-test.csv'', ''data/sentinel-1'',
                                   ''data/sentinel-2'']),
      read_text = (\<lambda>p. if p = ''data/bigearthnet-test.csv''
                        then Inr (''p1,q1'' @ [CHR 0x0A] @ ''p2,q2'' @ [CHR 0x0A])
                        else Inl (OSError p)),
      glob_paths = (\<lambda>pat.
         if pat = ''data/sentinel-1/p1/*.json'' then [''data/sentinel-1/p1/labels.json'']
         else if pat = ''data/sentinel-2/p1/*.json'' then [''data/sentinel-2/p1/labels.json'']
         else if pat = ''data/sentinel-2/p2/*.json'' then [''data/sentinel-2/p2/labels.json'']
         else if pat = ''data/sentinel-1/p1/*.tif''
           then [''data/sentinel-1/p1/VV.tif'', ''data/sentinel-1/p1/VH.tif'']
         else if pat = ''data/sentinel-2/p1/*.tif''
           then [''data/sentinel-2/p1/B02.tif'', ''data/sentinel-2/p1/B01.tif'']
         else []),
      load_labels = (\<lambda>p.
         if p = ''data/sentinel-1/p1/labels.json'' then Inr [''Pastures'']
         else if p = ''data/sentinel-2/p1/labels.json''
           then Inr [''Airports'', ''Sea and ocean'']
         else if p = ''data/sentinel-2/p2/labels.json'' then Inr [''Pastures'', ''Glacier'']
         else Inl (OSError p))\<rparr>"

definition demo_world :: world where
  "demo_world =
     \<lparr>class_sets_19 = class_set_19, class_sets_43 = class_set_43, fs = demo_fs, io_log = []\<rparr>"

text \<open>The same disk, with a blank line inside the test manifest.\<close>

definition blank_line_world :: world where
  "blank_line_world =
     demo_world\<lparr>fs := demo_fs\<lparr>read_text := (\<lambda>p.
        if p = ''data/bigearthnet-test.csv''
        then Inr (''p1'' @ [CHR 0x0A, CHR 0x0A] @ ''p2'')
        else Inl (OSError p))\<rparr>\<rparr>"

definition demo_env :: "int collaborators" where
  "demo_env =
     \<lparr>extract_archive = (\<lambda>p f. Inr f),
      download_url = (\<lambda>u r n m f. Inr f),
      sort_sentinel2_bands = (\<lambda>p. p),
      rasterio_read = (\<lambda>f p. Inr [0])\<rparr>"

text \<open>The instance \<open>__init__\<close> builds on this disk for the test split.\<close>

definition demo_self ::
  "string \<Rightarrow> int \<Rightarrow> (int sample \<Rightarrow> error + int sample) option \<Rightarrow> int bigearthnet" where
  "demo_self b n tr =
     \<lparr>root = ''data'', split = ''test'', bands = b, num_classes = n, transforms = tr,
      download = False, checksum = False, class2idx = mk_class2idx class_set_43,
      folders = [\<lparr>s1 = ''data/sentinel-1/p1'', s2 = ''data/sentinel-2/p1''\<rparr>,
                 \<lparr>s1 = ''data/sentinel-1/p2'', s2 = ''data/sentinel-2/p2''\<rparr>],
      other_features = False\<rparr>"

text \<open>A transform that adds a dimension of size 1 at position \<open>d\<close> of the image.\<close>

definition demo_unsqueeze :: "nat \<Rightarrow> int sample \<Rightarrow> error + int sample" where
  "demo_unsqueeze d s =
     Inr (s\<lparr>sample_image :=
              (sample_image s)\<lparr>shape := take d (shape (sample_image s)) @ [1]
                                          @ drop d (shape (sample_image s))\<rparr>\<rparr>)"

section \<open>Properties\<close>

subsection \<open>Auxiliary facts\<close>

lemma label_converter_distinct: "distinct (map fst label_converter)"
  by (simp add: label_converter_def)

lemma py_split_not_Nil: "py_split sep s \<noteq> []"
proof -
  have "split_acc sep acc s \<noteq> []" for acc
    by (induction s arbitrary: acc) auto
  then show ?thesis by (simp add: py_split_def)
qed

lemma same_class_sets_refl: "same_class_sets w w"
  by (simp add: same_class_sets_def)

lemma same_class_sets_trans:
  "same_class_sets w w1 \<Longrightarrow> same_class_sets w1 w2 \<Longrightarrow> same_class_sets w w2"
  by (simp add: same_class_sets_def)

lemma log_io_cs: "same_class_sets w (log_io ev w)"
  by (simp add: same_class_sets_def log_io_def)

lemma os_path_exists_cs: "os_path_exists p w = (b, w') \<Longrightarrow> same_class_sets w w'"
  by (auto simp: os_path_exists_def log_io_cs)

lemma open_read_cs: "open_read p w = (r, w') \<Longrightarrow> same_class_sets w w'"
  by (auto simp: open_read_def log_io_cs)

lemma extract_file_cs: "extract_file env p w = (r, w') \<Longrightarrow> same_class_sets w w'"
  by (auto simp: extract_file_def same_class_sets_def log_io_def split: if_splits sum.splits)

lemma download_file_cs:
  "download_file env self u f m w = (r, w') \<Longrightarrow> same_class_sets w w'"
  by (auto simp: download_file_def os_path_exists_def same_class_sets_def log_io_def Let_def
           split: if_splits sum.splits prod.splits)

lemma exists_each_cs: "exists_each ps w = (bs, w') \<Longrightarrow> same_class_sets w w'"
proof (induction ps arbitrary: w bs w')
  case Nil
  then show ?case by (simp add: same_class_sets_refl)
next
  case (Cons p ps)
  obtain b w1 where a: "os_path_exists p w = (b, w1)" by (cases "os_path_exists p w")
  obtain bs' w2 where b: "exists_each ps w1 = (bs', w2)" by (cases "exists_each ps w1")
  from Cons.prems a b have "w' = w2" by simp
  with same_class_sets_trans [OF os_path_exists_cs [OF a] Cons.IH [OF b]]
  show ?case by simp
qed

lemma extract_existing_cs:
  "extract_existing env self names w = (r, w') \<Longrightarrow> same_class_sets w w'"
proof (induction names arbitrary: w r w')
  case Nil
  then show ?case by (simp add: same_class_sets_refl)
next
  case (Cons f rest)
  let ?p = "os_path_join (root self) [f]"
  obtain ex w1 where a: "os_path_exists ?p w = (ex, w1)" by (cases "os_path_exists ?p w")
  note step1 = os_path_exists_cs [OF a]
  show ?case
  proof (cases ex)
    case True
    obtain r2 w2 where b: "extract_file env ?p w1 = (r2, w2)"
      by (cases "extract_file env ?p w1")
    note step2 = same_class_sets_trans [OF step1 extract_file_cs [OF b]]
    show ?thesis
    proof (cases r2)
      case (Inl e)
      with Cons.prems a b True have "w' = w2" by (simp add: Let_def)
      with step2 show ?thesis by simp
    next
      case (Inr u)
      obtain r3 w3 where c: "extract_existing env self rest w2 = (r3, w3)"
        by (cases "extract_existing env self rest w2")
      with Cons.prems a b True Inr have "w' = w3" by (auto simp: Let_def split: sum.splits)
      with same_class_sets_trans [OF step2 Cons.IH [OF c]] show ?thesis by simp
    qed
  next
    case False
    obtain r3 w3 where c: "extract_existing env self rest w1 = (r3, w3)"
      by (cases "extract_existing env self rest w1")
    with Cons.prems a False have "w' = w3" by (auto simp: Let_def split: sum.splits)
    with same_class_sets_trans [OF step1 Cons.IH [OF c]] show ?thesis by simp
  qed
qed

lemma download_each_cs:
  "download_each env self ts w = (r, w') \<Longrightarrow> same_class_sets w w'"
proof (induction ts arbitrary: w r w')
  case Nil
  then show ?case by (simp add: same_class_sets_refl)
next
  case (Cons t rest)
  obtain u f m where t: "t = (u, f, m)" by (cases t)
  obtain r1 w1 where a: "download_file env self u f m w = (r1, w1)"
    by (cases "download_file env self u f m w")
  note step1 = download_file_cs [OF a]
  show ?case
  proof (cases r1)
    case (Inl e)
    with Cons.prems t a have "w' = w1" by simp
    with step1 show ?thesis by simp
  next
    case (Inr x)
    obtain r2 w2 where b: "extract_file env (os_path_join (root self) [f]) w1 = (r2, w2)"
      by (cases "extract_file env (os_path_join (root self) [f]) w1")
    note step2 = same_class_sets_trans [OF step1 extract_file_cs [OF b]]
    show ?thesis
    proof (cases r2)
      case (Inl e)
      with Cons.prems t a b Inr have "w' = w2" by simp
      with step2 show ?thesis by simp
    next
      case (Inr y)
      with Cons.prems t a b \<open>r1 = Inr x\<close>
      have "download_each env self rest w2 = (r, w')" by simp
      from same_class_sets_trans [OF step2 Cons.IH [OF this]] show ?thesis .
    qed
  qed
qed

lemma verify_cs: "verify env self w = (r, w') \<Longrightarrow> same_class_sets w w'"
  unfolding verify_def Let_def
  by (auto split: sum.splits prod.splits if_splits
           intro: same_class_sets_refl
           dest!: exists_each_cs extract_existing_cs download_each_cs
           simp: same_class_sets_def)

lemma load_folders_cs: "load_folders self w = (r, w') \<Longrightarrow> same_class_sets w w'"
  unfolding load_folders_def Let_def
  by (auto split: sum.splits prod.splits if_splits
           dest!: open_read_cs
           simp: same_class_sets_def)

lemma load_folders_InrD:
  assumes "load_folders self w = (Inr fl, w')"
  shows "\<exists>entry content.
           map_of splits_metadata (split self) = Some entry \<and>
           read_text (fs w) (os_path_join (root self) [filename entry]) = Inr content \<and>
           fl = map (folder_of_line (root self)) (py_splitlines (py_strip content)) \<and>
           w' = log_io (OpenRead (os_path_join (root self) [filename entry])) w"
  using assms unfolding load_folders_def Let_def dict_get_def open_read_def
  by (auto split: option.splits sum.splits prod.splits
           simp: metadata_def folder_of_line_def [abs_def])

lemma init_InrD:
  assumes "init env r sp b n tr dl ck oth w = (Inr self, w')"
  shows "\<exists>w1 w2 fl.
           verify env (init_self r sp b n tr dl ck w) w = (Inr (), w1) \<and>
           load_folders (init_self r sp b n tr dl ck w :: 'a bigearthnet) w1 = (Inr fl, w2) \<and>
           self = (init_self r sp b n tr dl ck w)
                    \<lparr>num_classes :=
                       (if oth \<and> ''Other features'' \<notin> set (class_sets_19 w2)
                        then n + 1 else n),
                     folders := fl, other_features := oth\<rparr> \<and>
           w' = (if oth \<and> ''Other features'' \<notin> set (class_sets_19 w2)
                 then w2\<lparr>class_sets_19 := class_sets_19 w2 @ [''Other features''],
                         class_sets_43 := class_sets_43 w2 @ [''Other features'']\<rparr>
                 else w2) \<and>
           sp \<in> set (map fst splits_metadata) \<and>
           b \<in> set [''s1'', ''s2'', ''all''] \<and> n \<in> set [43, 19]"
  using assms unfolding init_def init_self_def Let_def
  by (auto split: if_splits prod.splits sum.splits)

lemma init_class_sets:
  assumes "init env r sp b n tr dl ck oth w = (Inr self, w')"
  shows "class2idx self = mk_class2idx (class_sets_43 w)"
    and "num_classes self =
           (if oth \<and> ''Other features'' \<notin> set (class_sets_19 w) then n + 1 else n)"
    and "class_sets_19 w' =
           (if oth \<and> ''Other features'' \<notin> set (class_sets_19 w)
            then class_sets_19 w @ [''Other features''] else class_sets_19 w)"
    and "class_sets_43 w' =
           (if oth \<and> ''Other features'' \<notin> set (class_sets_19 w)
            then class_sets_43 w @ [''Other features''] else class_sets_43 w)"
    and "bands self = b"
proof -
  from init_InrD [OF assms] obtain w1 w2 fl where
    v: "verify env (init_self r sp b n tr dl ck w) w = (Inr (), w1)" and
    l: "load_folders (init_self r sp b n tr dl ck w :: 'a bigearthnet) w1 = (Inr fl, w2)" and
    s: "self = (init_self r sp b n tr dl ck w)
                    \<lparr>num_classes :=
                       (if oth \<and> ''Other features'' \<notin> set (class_sets_19 w2)
                        then n + 1 else n),
                     folders := fl, other_features := oth\<rparr>" and
    w': "w' = (if oth \<and> ''Other features'' \<notin> set (class_sets_19 w2)
                 then w2\<lparr>class_sets_19 := class_sets_19 w2 @ [''Other features''],
                         class_sets_43 := class_sets_43 w2 @ [''Other features'']\<rparr>
                 else w2)"
    by blast
  from same_class_sets_trans [OF verify_cs [OF v] load_folders_cs [OF l]]
  have cs: "class_sets_19 w2 = class_sets_19 w" "class_sets_43 w2 = class_sets_43 w"
    by (simp_all add: same_class_sets_def)
  show "class2idx self = mk_class2idx (class_sets_43 w)"
    using s by (simp add: init_self_def)
  show "num_classes self =
          (if oth \<and> ''Other features'' \<notin> set (class_sets_19 w) then n + 1 else n)"
    using s cs by (simp add: init_self_def)
  show "class_sets_19 w' =
          (if oth \<and> ''Other features'' \<notin> set (class_sets_19 w)
           then class_sets_19 w @ [''Other features''] else class_sets_19 w)"
    using w' cs by simp
  show "class_sets_43 w' =
          (if oth \<and> ''Other features'' \<notin> set (class_sets_19 w)
           then class_sets_43 w @ [''Other features''] else class_sets_43 w)"
    using w' cs by simp
  show "bands self = b"
    using s by (simp add: init_self_def)
qed

lemma mk_class2idx_other:
  "mk_class2idx (class_set_43 @ [''Other features'']) ''Other features'' = Some 43"
  by (simp add: mk_class2idx_def py_enumerate_def class_set_43_def upt_rec)

lemma mk_class2idx_pastures: "mk_class2idx class_set_43 ''Pastures'' = Some 17"
  by (simp add: mk_class2idx_def py_enumerate_def class_set_43_def upt_rec)

lemma other_notin_19: "''Other features'' \<notin> set class_set_19"
  by (simp add: class_set_19_def)

lemma collect_map_Inr:
  "collect (map f xs) = Inr ys
   \<Longrightarrow> length ys = length xs \<and> (\<forall>i < length xs. f (xs ! i) = Inr (ys ! i))"
proof (induction xs arbitrary: ys)
  case Nil
  then show ?case by simp
next
  case (Cons x xs)
  from Cons.prems obtain y ys' where
    y: "f x = Inr y" and r: "collect (map f xs) = Inr ys'" and ys: "ys = y # ys'"
    by (auto split: sum.splits)
  from Cons.IH [OF r] y ys show ?case
    by (auto simp: nth_Cons split: nat.splits)
qed

lemma collect_map_Inl: "collect (map f xs) = Inl e \<Longrightarrow> \<exists>x \<in> set xs. f x = Inl e"
  by (induction xs) (auto split: sum.splits)

lemma collect_map_total:
  "(\<And>x. x \<in> set xs \<Longrightarrow> \<exists>y. f x = Inr y) \<Longrightarrow> \<exists>ys. collect (map f xs) = Inr ys"
proof (induction xs)
  case Nil
  then show ?case by simp
next
  case (Cons x xs)
  then obtain y where "f x = Inr y" by fastforce
  moreover from Cons obtain ys where "collect (map f xs) = Inr ys" by fastforce
  ultimately show ?case by simp
qed

lemma index_put_list_in_range:
  "(\<And>i. i \<in> set ixs \<Longrightarrow> 0 \<le> i \<and> i < int (length xs)) \<Longrightarrow>
   index_put_list xs ixs v =
     Inr (map (\<lambda>j. if int j \<in> set ixs then v else xs ! j) [0 ..< length xs])"
proof (induction ixs arbitrary: xs)
  case Nil
  then show ?case by (simp add: map_nth)
next
  case (Cons i rest)
  have i: "0 \<le> i" "i < int (length xs)" using Cons.prems [of i] by simp_all
  have "index_put_list (xs[nat i := v]) rest v =
          Inr (map (\<lambda>j. if int j \<in> set rest then v else xs[nat i := v] ! j)
                 [0 ..< length (xs[nat i := v])])"
    by (rule Cons.IH) (use Cons.prems in simp)
  moreover
  have "map (\<lambda>j. if int j \<in> set rest then v else xs[nat i := v] ! j) [0 ..< length xs]
      = map (\<lambda>j. if int j \<in> set (i # rest) then v else xs ! j) [0 ..< length xs]"
    using i by (auto simp: nth_list_update)
  ultimately show ?case using i by (simp add: Let_def)
qed

lemma label_converter_get_range:
  assumes "label_converter_get k = Some v"
  shows "0 \<le> k \<and> k \<le> 42 \<and> 0 \<le> v \<and> v \<le> 18"
proof -
  from assms have "(k, v) \<in> set label_converter"
    unfolding label_converter_get_def by (rule map_of_SomeD)
  then show ?thesis unfolding label_converter_def by auto
qed

lemma set_mapped_indices:
  "set (mapped_indices indices) = {v. \<exists>k \<in> set indices. label_converter_get k = Some v}"
  by (auto simp: mapped_indices_def split: option.splits)

lemma mapped_indices_range: "i \<in> set (mapped_indices indices) \<Longrightarrow> 0 \<le> i \<and> i \<le> 18"
  by (auto simp: set_mapped_indices dest: label_converter_get_range)

lemma labels_to_target_19:
  assumes "num_classes self = 19 \<or> num_classes self = 20"
  shows "labels_to_target self labels =
           (case collect (map (lookup_label self) labels) of
              Inl e \<Rightarrow> Inl e
            | Inr indices \<Rightarrow>
                Inr \<lparr>shape = [nat (num_classes self)],
                     elems = map (\<lambda>j. if int j \<in> set (mapped_indices indices) then 1 else 0)
                               [0 ..< nat (num_classes self)]\<rparr>)"
proof (cases "collect (map (lookup_label self) labels)")
  case (Inl e)
  then show ?thesis by (simp add: labels_to_target_def)
next
  case (Inr indices)
  have "index_put_list (replicate (nat (num_classes self)) 0) (mapped_indices indices) 1 =
          Inr (map (\<lambda>j. if int j \<in> set (mapped_indices indices) then 1
                         else replicate (nat (num_classes self)) 0 ! j)
                 [0 ..< length (replicate (nat (num_classes self)) (0::int))])"
    by (rule index_put_list_in_range) (use assms mapped_indices_range in fastforce)
  then have "index_put_list (replicate (nat (num_classes self)) 0) (mapped_indices indices) 1 =
          Inr (map (\<lambda>j. if int j \<in> set (mapped_indices indices) then 1 else 0)
                 [0 ..< nat (num_classes self)])"
    by (simp cong: map_cong)
  with Inr assms show ?thesis
    by (auto simp: labels_to_target_def Let_def torch_zeros_def index_put_def)
qed

lemma load_target_unfold:
  assumes "py_index (folders self) index = Inr entry"
      and "glob_paths (fs w) (os_path_join (if bands self = ''s2'' then s2 entry else s1 entry)
             [''*.json'']) = path # others"
      and "load_labels (fs w) path = Inr labels"
    shows "fst (load_target self index w) = labels_to_target self labels"
  using assms
  by (simp add: load_target_def glob_glob_def json_load_labels_def log_io_def Let_def)

lemma load_target_InrD:
  assumes "fst (load_target self index w) = Inr t"
  shows "\<exists>labels. labels_to_target self labels = Inr t"
  using assms
  by (auto simp: load_target_def glob_glob_def json_load_labels_def log_io_def Let_def
           split: sum.splits list.splits prod.splits)

text \<open>Unfolding rules that evaluate the methods on the small data set.\<close>

lemmas demo_eval =
  init_def init_self_def splits_metadata_def verify_def metadata_def dict_get_def Let_def
  os_path_exists_def log_io_def os_path_join_def join_step_def startswith_def endswith_def
  demo_world_def demo_fs_def demo_env_def demo_self_def load_folders_def open_read_def
  py_strip_def py_splitlines_def py_isspace_def py_linebreak_def py_split_def len_def
  class_set_19_def py_index_def glob_glob_def json_load_labels_def load_target_def
  load_paths_def load_image_def getitem_def

lemma demo_init_s1:
  "n = 43 \<or> n = 19 \<Longrightarrow>
   init demo_env ''data'' ''test'' ''s1'' n tr False False False demo_world =
     (Inr (demo_self ''s1'' n tr),
      demo_world\<lparr>io_log :=
        [PathExists ''data/bigearthnet-train.csv'', PathExists ''data/bigearthnet-val.csv'',
         PathExists ''data/bigearthnet-test.csv'', PathExists ''data/sentinel-1'',
         OpenRead ''data/bigearthnet-test.csv'']\<rparr>)"
  by (simp add: demo_eval)

lemma demo_init_s2:
  "n = 43 \<or> n = 19 \<Longrightarrow>
   init demo_env ''data'' ''test'' ''s2'' n tr False False False demo_world =
     (Inr (demo_self ''s2'' n tr),
      demo_world\<lparr>io_log :=
        [PathExists ''data/bigearthnet-train.csv'', PathExists ''data/bigearthnet-val.csv'',
         PathExists ''data/bigearthnet-test.csv'', PathExists ''data/sentinel-2'',
         OpenRead ''data/bigearthnet-test.csv'']\<rparr>)"
  by (simp add: demo_eval)

lemma demo_init_ex:
  assumes "fs v = demo_fs" and "n = 43 \<or> n = 19"
  shows "\<exists>d w'. init demo_env ''data'' ''test'' ''s2'' n tr False False oth v = (Inr d, w')
               \<and> fs w' = demo_fs"
  using assms
  by (auto simp: init_def init_self_def splits_metadata_def verify_def metadata_def dict_get_def
        Let_def os_path_exists_def log_io_def os_path_join_def join_step_def startswith_def
        endswith_def demo_fs_def demo_env_def load_folders_def open_read_def)

lemma mk_class2idx_airports: "mk_class2idx class_set_43 ''Airports'' = Some 5"
  by (simp add: mk_class2idx_def py_enumerate_def class_set_43_def upt_rec)

lemma mk_class2idx_sea: "mk_class2idx class_set_43 ''Sea and ocean'' = Some 42"
  by (simp add: mk_class2idx_def py_enumerate_def class_set_43_def upt_rec)

lemma mk_class2idx_glacier: "mk_class2idx class_set_43 ''Glacier'' = None"
  by (simp add: mk_class2idx_def py_enumerate_def class_set_43_def upt_rec)

lemma mk_class2idx_pastures_ext:
  "mk_class2idx (class_set_43 @ [''Other features'']) ''Pastures'' = Some 17"
  by (simp add: mk_class2idx_def py_enumerate_def class_set_43_def upt_rec)

lemma collect_map_set:
  "collect (map f xs) = Inr ys \<Longrightarrow> set ys = {y. \<exists>x \<in> set xs. f x = Inr y}"
proof (induction xs arbitrary: ys)
  case Nil
  then show ?case by simp
next
  case (Cons x xs)
  from Cons.prems obtain y ys' where
    y: "f x = Inr y" and r: "collect (map f xs) = Inr ys'" and ys: "ys = y # ys'"
    by (auto split: sum.splits)
  from Cons.IH [OF r] y ys show ?case by auto
qed

lemma label_converter_table_ranges:
  "list_all (\<lambda>(k, v). 0 \<le> k \<and> k \<le> 42 \<and> 0 \<le> v \<and> v \<le> 18) label_converter"
  by (simp add: label_converter_def)

lemma demo_folders:
  "py_index (folders (demo_self b n tr)) 0
     = Inr \<lparr>s1 = ''data/sentinel-1/p1'', s2 = ''data/sentinel-2/p1''\<rparr>"
  "py_index (folders (demo_self b n tr)) 1
     = Inr \<lparr>s1 = ''data/sentinel-1/p2'', s2 = ''data/sentinel-2/p2''\<rparr>"
  by (simp_all add: demo_self_def py_index_def)

lemma demo_label_files:
  "glob_paths (fs demo_world) (os_path_join ''data/sentinel-1/p1'' [''*.json''])
     = [''data/sentinel-1/p1/labels.json'']"
  "glob_paths (fs demo_world) (os_path_join ''data/sentinel-2/p1'' [''*.json''])
     = [''data/sentinel-2/p1/labels.json'']"
  "glob_paths (fs demo_world) (os_path_join ''data/sentinel-2/p2'' [''*.json''])
     = [''data/sentinel-2/p2/labels.json'']"
  "load_labels (fs demo_world) ''data/sentinel-1/p1/labels.json'' = Inr [''Pastures'']"
  "load_labels (fs demo_world) ''data/sentinel-2/p1/labels.json''
     = Inr [''Airports'', ''Sea and ocean'']"
  "load_labels (fs demo_world) ''data/sentinel-2/p2/labels.json''
     = Inr [''Pastures'', ''Glacier'']"
  by (simp_all add: demo_world_def demo_fs_def os_path_join_def join_step_def startswith_def
        endswith_def)

lemma demo_load_image_s1:
  "fs v = demo_fs \<Longrightarrow>
   \<exists>img w1. load_image demo_env (demo_self ''s1'' n tr) 0 v = (Inr img, w1)
           \<and> shape img = [2, 120, 120] \<and> fs w1 = demo_fs"
  by (simp add: load_image_def load_paths_def demo_self_def py_index_def glob_glob_def
        log_io_def Let_def demo_fs_def demo_env_def os_path_join_def join_step_def
        startswith_def endswith_def image_size_def)

lemma demo_load_target_s1:
  "fs v = demo_fs \<Longrightarrow>
   \<exists>label w2. load_target (demo_self ''s1'' 19 tr) 0 v = (Inr label, w2)"
  by (simp add: load_target_def demo_self_def py_index_def glob_glob_def json_load_labels_def
        log_io_def Let_def demo_fs_def os_path_join_def join_step_def startswith_def
        endswith_def labels_to_target_19 lookup_label_def mk_class2idx_pastures)

lemma demo_target_s2_p1:
  "fst (load_target (demo_self ''s2'' 19 None :: int bigearthnet) 0 demo_world)
     = Inr \<lparr>shape = [19], elems = map (\<lambda>j. if int j \<in> set [18] then 1 else 0) [0 ..< 19]\<rparr>"
proof -
  have "fst (load_target (demo_self ''s2'' 19 None :: int bigearthnet) 0 demo_world)
          = labels_to_target (demo_self ''s2'' 19 None :: int bigearthnet)
              [''Airports'', ''Sea and ocean'']"
    by (rule load_target_unfold [OF demo_folders(1) _ demo_label_files(5)])
       (simp add: demo_self_def demo_label_files)
  also have "\<dots> = Inr \<lparr>shape = [19],
                        elems = map (\<lambda>j. if int j \<in> set [18] then 1 else 0) [0 ..< 19]\<rparr>"
    by (subst labels_to_target_19)
       (simp_all add: demo_self_def lookup_label_def mk_class2idx_airports mk_class2idx_sea
          mapped_indices_def label_converter_get_def label_converter_def)
  finally show ?thesis .
qed

lemma target_indices_19:
  assumes "num_classes self = 19 \<or> num_classes self = 20"
      and "fst (load_target self index w) = Inr t"
      and "j < length (elems t)"
      and "elems t ! j \<noteq> 0"
    shows "j \<le> 18 \<and> elems t ! j = 1 \<and> length (elems t) = nat (num_classes self)"
proof -
  from load_target_InrD [OF assms(2)] obtain labels where
    l: "labels_to_target self labels = Inr t" by blast
  from l labels_to_target_19 [OF assms(1), of labels] obtain indices where
    t: "t = \<lparr>shape = [nat (num_classes self)],
             elems = map (\<lambda>j. if int j \<in> set (mapped_indices indices) then 1 else 0)
                       [0 ..< nat (num_classes self)]\<rparr>"
    by (auto split: sum.splits)
  have len: "length (elems t) = nat (num_classes self)" using t by simp
  with assms(3) have j: "j < nat (num_classes self)" by simp
  have e: "elems t ! j = (if int j \<in> set (mapped_indices indices) then 1 else 0)"
    using t j by simp
  with assms(4) have m: "int j \<in> set (mapped_indices indices)" by (simp split: if_splits)
  from mapped_indices_range [OF m] have "j \<le> 18" by simp
  moreover have "elems t ! j = 1" using e m by simp
  ultimately show ?thesis using len by simp
qed

lemma demo_init_flag_s1:
  assumes "fs v = demo_fs" and "n = 43 \<or> n = 19"
  shows "\<exists>d w'. init demo_env ''data'' ''test'' ''s1'' n tr False False oth v = (Inr d, w')
               \<and> folders d = [\<lparr>s1 = ''data/sentinel-1/p1'', s2 = ''data/sentinel-2/p1''\<rparr>,
                              \<lparr>s1 = ''data/sentinel-1/p2'', s2 = ''data/sentinel-2/p2''\<rparr>]"
  using assms
  by (auto simp: init_def init_self_def splits_metadata_def verify_def metadata_def dict_get_def
        Let_def os_path_exists_def log_io_def os_path_join_def join_step_def startswith_def
        endswith_def demo_fs_def demo_env_def load_folders_def open_read_def py_strip_def
        py_splitlines_def py_isspace_def py_linebreak_def py_split_def)

subsection \<open>Illegal configuration values\<close>

text \<open>
  C9. Construction with an illegal configuration value (a split outside train, val,
  test, bands outside s1, s2, all, or a class count outside 19, 43) raises the
  assertion error and leaves the world as it was: no file system call and no other
  I/O has happened, since the I/O trace is the one before the call.
\<close>

theorem init_illegal_config_fails_before_io:
  assumes "sp \<notin> set [''train'', ''val'', ''test''] \<or> b \<notin> set [''s1'', ''s2'', ''all'']
           \<or> n \<notin> set [19, 43]"
  shows "init env r sp b n tr dl ck oth w = (Inl AssertionError, w)
         \<and> io_log (snd (init env r sp b n tr dl ck oth w)) = io_log w"
  using assms by (auto simp: init_def splits_metadata_def)

text \<open>
  On the small data set: bands \<open>x\<close> fails with the trace untouched, while a legal
  construction does leave I/O events.
\<close>

theorem init_illegal_config_fails_before_io_witness:
  "init demo_env ''data'' ''test'' ''x'' 19 None True False False demo_world
     = (Inl AssertionError, demo_world)
   \<and> io_log (snd (init demo_env ''data'' ''test'' ''x'' 19 None True False False demo_world))
     = io_log demo_world
   \<and> io_log (snd (init demo_env ''data'' ''test'' ''s2'' 19 None False False False demo_world))
     \<noteq> io_log demo_world"
proof -
  have "''x'' \<notin> set [''s1'', ''s2'', ''all'']" by simp
  then have "init demo_env ''data'' ''test'' ''x'' 19 None True False False demo_world
               = (Inl AssertionError, demo_world)
             \<and> io_log (snd (init demo_env ''data'' ''test'' ''x'' 19 None True False False
                                demo_world)) = io_log demo_world"
    by (intro init_illegal_config_fails_before_io) simp
  moreover
  have "io_log (snd (init demo_env ''data'' ''test'' ''s2'' 19 None False False False demo_world))
          \<noteq> io_log demo_world"
    by (simp add: demo_init_s2) (simp add: demo_world_def)
  ultimately show ?thesis by simp
qed

subsection \<open>The shared vocabularies and the "other" class\<close>

text \<open>
  C10. When the vocabularies are as the module loads them, a successful construction
  with \<open>other_features=True\<close> appends "Other features" to both class-level lists.
  Every instance constructed afterwards, in a world \<open>v\<close> that still has these
  lists and whatever its own \<open>other_features\<close> and \<open>num_classes\<close> are, builds its
  name-to-index lookup from the extended 43-class list, so the lookup maps
  "Other features" to 43; and that construction leaves the lists as they are, so the
  same holds for the instance after it.
\<close>

theorem other_features_extends_shared_vocabularies:
  assumes "class_sets_19 w = class_set_19" and "class_sets_43 w = class_set_43"
      and "init env r sp b n tr dl ck True w = (Inr self, w1)"
      and "same_class_sets w1 v"
      and "init env2 r2 sp2 b2 n2 tr2 dl2 ck2 oth2 v = (Inr self2, w2)"
    shows "class_sets_19 w1 = class_set_19 @ [''Other features'']
         \<and> class_sets_43 w1 = class_set_43 @ [''Other features'']
         \<and> class2idx self2 ''Other features'' = Some 43
         \<and> same_class_sets w1 w2"
proof -
  note first = init_class_sets [OF assms(3)]
  have c19: "class_sets_19 w1 = class_set_19 @ [''Other features'']"
    using first(3) assms(1) other_notin_19 by simp
  have c43: "class_sets_43 w1 = class_set_43 @ [''Other features'']"
    using first(4) assms(1,2) other_notin_19 by simp
  have v: "class_sets_19 v = class_set_19 @ [''Other features'']"
          "class_sets_43 v = class_set_43 @ [''Other features'']"
    using assms(4) c19 c43 by (simp_all add: same_class_sets_def)
  note second = init_class_sets [OF assms(5)]
  have "class2idx self2 ''Other features'' = Some 43"
    using second(1) v(2) mk_class2idx_other by simp
  moreover have "same_class_sets w1 w2"
    using second(3,4) v c19 c43 by (simp add: same_class_sets_def)
  ultimately show ?thesis using c19 c43 by simp
qed

text \<open>On the small data set: a 19-class instance with the flag, then a 43-class one without.\<close>

theorem other_features_extends_shared_vocabularies_witness:
  "\<exists>d1 w1 d2 w2.
      init demo_env ''data'' ''test'' ''s2'' 19 None False False True demo_world = (Inr d1, w1)
    \<and> init demo_env ''data'' ''test'' ''s2'' 43 None False False False w1 = (Inr d2, w2)
    \<and> class_sets_19 w1 = class_set_19 @ [''Other features'']
    \<and> class_sets_43 w1 = class_set_43 @ [''Other features'']
    \<and> class2idx d2 ''Other features'' = Some 43
    \<and> same_class_sets w1 w2"
proof -
  have f: "fs demo_world = demo_fs" by (simp add: demo_world_def)
  from demo_init_ex [OF f, of 19 None True] obtain d1 w1 where
    i1: "init demo_env ''data'' ''test'' ''s2'' 19 None False False True demo_world = (Inr d1, w1)"
    and f1: "fs w1 = demo_fs" by auto
  from demo_init_ex [OF f1, of 43 None False] obtain d2 w2 where
    i2: "init demo_env ''data'' ''test'' ''s2'' 43 None False False False w1 = (Inr d2, w2)"
    by auto
  have "class_sets_19 demo_world = class_set_19" "class_sets_43 demo_world = class_set_43"
    by (simp_all add: demo_world_def)
  from other_features_extends_shared_vocabularies [OF this i1 same_class_sets_refl i2] i1 i2
  show ?thesis by blast
qed

text \<open>
  C2. Two constructions with \<open>other_features=True\<close> and \<open>num_classes=19\<close>, one after
  the other on the small data set. The class list ends with one "Other features"
  entry, and the first instance has 20 classes; the second instance has 19, since the
  guard that keeps the entry from being appended twice also skips its increment.
\<close>

theorem second_other_features_instance_not_incremented:
  "map_sum id num_classes
     (fst (init demo_env ''data'' ''test'' ''s2'' 19 None False False True demo_world)) = Inr 20
   \<and> map_sum id num_classes
     (fst (init demo_env ''data'' ''test'' ''s2'' 19 None False False True
        (snd (init demo_env ''data'' ''test'' ''s2'' 19 None False False True demo_world))))
       = Inr 19
   \<and> class_sets_19
       (snd (init demo_env ''data'' ''test'' ''s2'' 19 None False False True
          (snd (init demo_env ''data'' ''test'' ''s2'' 19 None False False True demo_world))))
       = class_set_19 @ [''Other features'']"
proof -
  have f: "fs demo_world = demo_fs" by (simp add: demo_world_def)
  from demo_init_ex [OF f, of 19 None True] obtain d1 w1 where
    i1: "init demo_env ''data'' ''test'' ''s2'' 19 None False False True demo_world = (Inr d1, w1)"
    and f1: "fs w1 = demo_fs" by auto
  from demo_init_ex [OF f1, of 19 None True] obtain d2 w2 where
    i2: "init demo_env ''data'' ''test'' ''s2'' 19 None False False True w1 = (Inr d2, w2)"
    by auto
  have cs: "class_sets_19 demo_world = class_set_19" by (simp add: demo_world_def)
  note a = init_class_sets [OF i1]
  note b = init_class_sets [OF i2]
  have n1: "num_classes d1 = 20" using a(2) cs other_notin_19 by simp
  have c1: "class_sets_19 w1 = class_set_19 @ [''Other features'']"
    using a(3) cs other_notin_19 by simp
  have n2: "num_classes d2 = 19" using b(2) c1 by simp
  have c2: "class_sets_19 w2 = class_set_19 @ [''Other features'']" using b(3) c1 by simp
  show ?thesis using i1 i2 n1 n2 c2 by simp
qed

subsection \<open>The sample index and the manifest\<close>

text \<open>
  C3, as the code has it. After a successful construction the manifest of the split
  is readable on the disk the construction leaves, the length of the data set is the
  number of lines of that text once leading and trailing whitespace is stripped (a
  blank line inside the text counts), and entry \<open>i\<close> of \<open>folders\<close> is built from
  the first comma-separated token of line \<open>i\<close> of the stripped text.
\<close>

theorem len_is_stripped_line_count:
  assumes "init env r sp b n tr dl ck oth w = (Inr self, w')"
  shows "\<exists>entry content.
           map_of splits_metadata sp = Some entry
         \<and> read_text (fs w') (os_path_join r [filename entry]) = Inr content
         \<and> len self = length (py_splitlines (py_strip content))
         \<and> folders self = map (folder_of_line r) (py_splitlines (py_strip content))"
proof -
  from init_InrD [OF assms] obtain w1 w2 fl where
    l: "load_folders (init_self r sp b n tr dl ck w :: 'a bigearthnet) w1 = (Inr fl, w2)" and
    s: "self = (init_self r sp b n tr dl ck w)
                    \<lparr>num_classes :=
                       (if oth \<and> ''Other features'' \<notin> set (class_sets_19 w2)
                        then n + 1 else n),
                     folders := fl, other_features := oth\<rparr>" and
    w': "w' = (if oth \<and> ''Other features'' \<notin> set (class_sets_19 w2)
                 then w2\<lparr>class_sets_19 := class_sets_19 w2 @ [''Other features''],
                         class_sets_43 := class_sets_43 w2 @ [''Other features'']\<rparr>
                 else w2)"
    by blast
  from load_folders_InrD [OF l] obtain entry content where
    e: "map_of splits_metadata sp = Some entry" and
    c: "read_text (fs w1) (os_path_join r [filename entry]) = Inr content" and
    fl: "fl = map (folder_of_line r) (py_splitlines (py_strip content))" and
    w2: "w2 = log_io (OpenRead (os_path_join r [filename entry])) w1"
    by (auto simp: init_self_def)
  have "fs w' = fs w1" using w' w2 by (simp add: log_io_def)
  with e c fl s show ?thesis by (auto simp: len_def)
qed

text \<open>On the small data set the test manifest has two lines and the length is 2.\<close>

theorem len_is_stripped_line_count_witness:
  "\<exists>self w'.
      init demo_env ''data'' ''test'' ''s2'' 19 None False False False demo_world = (Inr self, w')
    \<and> (\<exists>entry content.
           map_of splits_metadata ''test'' = Some entry
         \<and> read_text (fs w') (os_path_join ''data'' [filename entry]) = Inr content
         \<and> len self = length (py_splitlines (py_strip content))
         \<and> folders self = map (folder_of_line ''data'') (py_splitlines (py_strip content)))
    \<and> len self = 2"
proof -
  have i: "init demo_env ''data'' ''test'' ''s2'' 19 None False False False demo_world
         = (Inr (demo_self ''s2'' 19 None),
      demo_world\<lparr>io_log :=
        [PathExists ''data/bigearthnet-train.csv'', PathExists ''data/bigearthnet-val.csv'',
         PathExists ''data/bigearthnet-test.csv'', PathExists ''data/sentinel-2'',
         OpenRead ''data/bigearthnet-test.csv'']\<rparr>)"
    by (rule demo_init_s2) simp
  have "len (demo_self ''s2'' 19 None :: int bigearthnet) = 2"
    by (simp add: len_def demo_self_def)
  with len_is_stripped_line_count [OF i] i show ?thesis by blast
qed

text \<open>
  C3 as stated fails on a manifest with a blank line inside: the text has two
  non-empty lines, and the data set built from it has length 3.
\<close>

theorem len_is_not_nonempty_line_count:
  "read_text (fs blank_line_world) ''data/bigearthnet-test.csv''
     = Inr (''p1'' @ [CHR 0x0A, CHR 0x0A] @ ''p2'')
   \<and> nonempty_line_count (''p1'' @ [CHR 0x0A, CHR 0x0A] @ ''p2'') = 2
   \<and> map_sum id len
        (fst (init demo_env ''data'' ''test'' ''s2'' 19 None False False False blank_line_world))
      = Inr 3"
  by (simp add: blank_line_world_def nonempty_line_count_def demo_eval)

subsection \<open>Band paths\<close>

text \<open>
  C7. For a valid sample index, the paths of combined mode (bands "all") are the
  paths of Sentinel-1 mode followed by the paths of Sentinel-2 mode, nothing between
  them and nothing left out: the first list is the \<open>*.tif\<close> files of the Sentinel-1
  folder sorted as strings, the second the \<open>*.tif\<close> files of the Sentinel-2 folder
  sorted by the band-order key.
\<close>

theorem combined_paths_are_s1_then_s2:
  assumes "py_index (folders self) index = Inr entry"
  shows "\<exists>ps1 ps2.
           fst (load_paths env (self\<lparr>bands := ''s1''\<rparr>) index w) = Inr ps1
         \<and> fst (load_paths env (self\<lparr>bands := ''s2''\<rparr>) index w) = Inr ps2
         \<and> fst (load_paths env (self\<lparr>bands := ''all''\<rparr>) index w) = Inr (ps1 @ ps2)
         \<and> ps1 = sort (glob_paths (fs w) (os_path_join (s1 entry) [''*.tif'']))
         \<and> ps2 = sort_key (sort_sentinel2_bands env)
                    (glob_paths (fs w) (os_path_join (s2 entry) [''*.tif'']))
         \<and> sorted ps1 \<and> sorted (map (sort_sentinel2_bands env) ps2)"
  using assms
  by (simp add: load_paths_def glob_glob_def log_io_def Let_def)

text \<open>On the small data set, with the files listed out of order by the disk.\<close>

theorem combined_paths_are_s1_then_s2_witness:
  "fst (load_paths demo_env (demo_self ''all'' 19 None) 0 demo_world)
     = Inr [''data/sentinel-1/p1/VH.tif'', ''data/sentinel-1/p1/VV.tif'',
            ''data/sentinel-2/p1/B01.tif'', ''data/sentinel-2/p1/B02.tif'']
   \<and> fst (load_paths demo_env (demo_self ''s1'' 19 None) 0 demo_world)
     = Inr [''data/sentinel-1/p1/VH.tif'', ''data/sentinel-1/p1/VV.tif'']
   \<and> fst (load_paths demo_env (demo_self ''s2'' 19 None) 0 demo_world)
     = Inr [''data/sentinel-2/p1/B01.tif'', ''data/sentinel-2/p1/B02.tif'']"
proof -
  have g: "sort (glob_paths (fs demo_world) (os_path_join ''data/sentinel-1/p1'' [''*.tif'']))
             = [''data/sentinel-1/p1/VH.tif'', ''data/sentinel-1/p1/VV.tif'']"
          "sort_key (sort_sentinel2_bands demo_env)
             (glob_paths (fs demo_world) (os_path_join ''data/sentinel-2/p1'' [''*.tif'']))
             = [''data/sentinel-2/p1/B01.tif'', ''data/sentinel-2/p1/B02.tif'']"
    by (simp_all add: demo_world_def demo_fs_def demo_env_def os_path_join_def join_step_def
          startswith_def endswith_def)
  have b: "(demo_self ''all'' 19 None :: int bigearthnet)\<lparr>bands := ''s1''\<rparr> = demo_self ''s1'' 19 None"
          "(demo_self ''all'' 19 None :: int bigearthnet)\<lparr>bands := ''s2''\<rparr> = demo_self ''s2'' 19 None"
          "(demo_self ''all'' 19 None :: int bigearthnet)\<lparr>bands := ''all''\<rparr> = demo_self ''all'' 19 None"
    by (simp_all add: demo_self_def)
  from combined_paths_are_s1_then_s2
         [OF demo_folders(1) [of "''all''" 19 None], where env = demo_env and w = demo_world]
  show ?thesis unfolding b using g by auto
qed

subsection \<open>Label loading\<close>

text \<open>
  C1, as the code has it. For a valid sample index the I/O of \<open>_load_target\<close> is the
  read of the label file of one folder: the Sentinel-2 folder when bands is "s2",
  and the Sentinel-1 folder when bands is "s1" or "all".
\<close>

theorem label_file_read_from_s2_only_in_s2_mode:
  assumes "py_index (folders self) index = Inr entry"
  shows "(bands self = ''s2'' \<longrightarrow>
            io_log (snd (load_target self index w)) = io_log w @ label_reads (fs w) (s2 entry))
       \<and> (bands self = ''s1'' \<or> bands self = ''all'' \<longrightarrow>
            io_log (snd (load_target self index w)) = io_log w @ label_reads (fs w) (s1 entry))"
  using assms
  by (auto simp: load_target_def label_reads_def glob_glob_def json_load_labels_def log_io_def
        Let_def split: list.splits sum.splits)

text \<open>On the small data set, in Sentinel-2 mode and in Sentinel-1 mode.\<close>

theorem label_file_read_from_s2_only_in_s2_mode_witness:
  "io_log (snd (load_target (demo_self ''s2'' 19 None) 0 demo_world))
     = [GlobCall ''data/sentinel-2/p1/*.json'', OpenRead ''data/sentinel-2/p1/labels.json'']
   \<and> io_log (snd (load_target (demo_self ''s1'' 19 None) 0 demo_world))
     = [GlobCall ''data/sentinel-1/p1/*.json'', OpenRead ''data/sentinel-1/p1/labels.json'']"
proof -
  have r: "label_reads (fs demo_world) ''data/sentinel-2/p1''
             = [GlobCall ''data/sentinel-2/p1/*.json'', OpenRead ''data/sentinel-2/p1/labels.json'']"
          "label_reads (fs demo_world) ''data/sentinel-1/p1''
             = [GlobCall ''data/sentinel-1/p1/*.json'', OpenRead ''data/sentinel-1/p1/labels.json'']"
    by (simp_all add: label_reads_def demo_world_def demo_fs_def os_path_join_def join_step_def
          startswith_def endswith_def)
  have b: "bands (demo_self ''s2'' 19 None :: int bigearthnet) = ''s2''"
          "bands (demo_self ''s1'' 19 None :: int bigearthnet) = ''s1''"
          "io_log demo_world = []"
    by (simp_all add: demo_self_def demo_world_def)
  from label_file_read_from_s2_only_in_s2_mode [OF demo_folders(1), of "''s2''" 19 None demo_world]
       label_file_read_from_s2_only_in_s2_mode [OF demo_folders(1), of "''s1''" 19 None demo_world]
       r b
  show ?thesis by simp
qed

text \<open>
  C1 as stated fails in combined mode: with bands "all" the label file that is
  globbed and opened is the one of the Sentinel-1 folder, not the Sentinel-2 one.
\<close>

theorem combined_mode_reads_label_file_of_s1:
  "bands (demo_self ''all'' 43 None :: int bigearthnet) = ''all''
   \<and> py_index (folders (demo_self ''all'' 43 None :: int bigearthnet)) 0
       = Inr \<lparr>s1 = ''data/sentinel-1/p1'', s2 = ''data/sentinel-2/p1''\<rparr>
   \<and> io_log (snd (load_target (demo_self ''all'' 43 None :: int bigearthnet) 0 demo_world))
       = [GlobCall ''data/sentinel-1/p1/*.json'', OpenRead ''data/sentinel-1/p1/labels.json'']
   \<and> io_log (snd (load_target (demo_self ''all'' 43 None :: int bigearthnet) 0 demo_world))
       \<noteq> io_log demo_world @ label_reads (fs demo_world) ''data/sentinel-2/p1''"
  by (simp add: demo_self_def py_index_def load_target_def glob_glob_def json_load_labels_def
        log_io_def Let_def demo_world_def demo_fs_def os_path_join_def join_step_def
        startswith_def endswith_def label_reads_def)

text \<open>
  C5. An instance that \<open>__init__\<close> has built, with the "other" flag on or off, on
  the vocabulary as the module loads it or as an earlier instance extended it, reads a
  label file whose labels are exactly "Pastures". When its class count
  \<open>self.num_classes\<close> is 43 the target has length 43 with a 1 at index 17 and 0
  elsewhere; when it is 19 the target has length 19 with a 1 at index 4 and 0
  elsewhere. The two other counts an instance can have, 44 and 20 (the flag on a
  vocabulary not yet extended), give the same index in a target one entry longer.
\<close>

theorem pastures_target:
  assumes "class_sets_43 w0 = class_set_43
           \<or> class_sets_43 w0 = class_set_43 @ [''Other features'']"
      and "init env r sp b n tr dl ck oth w0 = (Inr self, w1)"
      and "py_index (folders self) index = Inr entry"
      and "glob_paths (fs w) (os_path_join (if b = ''s2'' then s2 entry else s1 entry)
             [''*.json'']) = path # others"
      and "load_labels (fs w) path = Inr [''Pastures'']"
    shows "(num_classes self = 43 \<longrightarrow>
              fst (load_target self index w)
                = Inr \<lparr>shape = [43], elems = (replicate 43 0)[17 := 1]\<rparr>)
         \<and> (num_classes self = 19 \<longrightarrow>
              fst (load_target self index w)
                = Inr \<lparr>shape = [19], elems = (replicate 19 0)[4 := 1]\<rparr>)
         \<and> (num_classes self = 44 \<longrightarrow>
              fst (load_target self index w)
                = Inr \<lparr>shape = [44], elems = (replicate 44 0)[17 := 1]\<rparr>)
         \<and> (num_classes self = 20 \<longrightarrow>
              fst (load_target self index w)
                = Inr \<lparr>shape = [20], elems = (replicate 20 0)[4 := 1]\<rparr>)
         \<and> (num_classes self = 43 \<or> num_classes self = 19
              \<or> num_classes self = 44 \<or> num_classes self = 20)"
proof -
  note i = init_class_sets [OF assms(2)]
  have idx: "class2idx self ''Pastures'' = Some 17"
    using i(1) assms(1) mk_class2idx_pastures mk_class2idx_pastures_ext by auto
  have g: "glob_paths (fs w) (os_path_join (if bands self = ''s2'' then s2 entry else s1 entry)
             [''*.json'']) = path # others"
    using assms(4) i(5) by simp
  have t: "fst (load_target self index w) = labels_to_target self [''Pastures'']"
    by (rule load_target_unfold [OF assms(3) g assms(5)])
  have "n = 43 \<or> n = 19" using init_InrD [OF assms(2)] by auto
  with i(2) have n: "num_classes self = 43 \<or> num_classes self = 19
                     \<or> num_classes self = 44 \<or> num_classes self = 20"
    by (auto split: if_splits)
  have fine: "labels_to_target self [''Pastures'']
          = Inr \<lparr>shape = [nat m], elems = (replicate (nat m) 0)[17 := 1]\<rparr>"
    if "num_classes self = m" "m = 43 \<or> m = 44" for m
    using that idx
    by (auto simp: labels_to_target_def lookup_label_def torch_zeros_def index_put_def)
  have coarse: "labels_to_target self [''Pastures'']
          = Inr \<lparr>shape = [nat m], elems = (replicate (nat m) 0)[4 := 1]\<rparr>"
    if "num_classes self = m" "m = 19 \<or> m = 20" for m
    using that idx
    by (auto simp: labels_to_target_def lookup_label_def torch_zeros_def index_put_def
          mapped_indices_def label_converter_get_def label_converter_def)
  from fine [of 43] fine [of 44] coarse [of 19] coarse [of 20] t n
  show ?thesis by simp
qed

text \<open>
  On the small data set: the Sentinel-1 label file of the first sample, read by a
  43-class and a 19-class instance without the flag and by a flagged instance.
\<close>

theorem pastures_target_witness:
  "fst (load_target (demo_self ''s1'' 43 None :: int bigearthnet) 0 demo_world)
     = Inr \<lparr>shape = [43], elems = (replicate 43 0)[17 := 1]\<rparr>
   \<and> fst (load_target (demo_self ''s1'' 19 None :: int bigearthnet) 0 demo_world)
     = Inr \<lparr>shape = [19], elems = (replicate 19 0)[4 := 1]\<rparr>
   \<and> (\<exists>d w1. init demo_env ''data'' ''test'' ''s1'' 19 None False False True demo_world
                  = (Inr d, w1)
          \<and> num_classes d = 20
          \<and> fst (load_target (d :: int bigearthnet) 0 demo_world)
              = Inr \<lparr>shape = [20], elems = (replicate 20 0)[4 := 1]\<rparr>)"
proof -
  have c: "class_sets_43 demo_world = class_set_43
           \<or> class_sets_43 demo_world = class_set_43 @ [''Other features'']"
    by (simp add: demo_world_def)
  have g: "glob_paths (fs demo_world)
             (os_path_join (if ''s1'' = ''s2'' then s2 \<lparr>s1 = ''data/sentinel-1/p1'', s2 = ''data/sentinel-2/p1''\<rparr>
                            else s1 \<lparr>s1 = ''data/sentinel-1/p1'', s2 = ''data/sentinel-2/p1''\<rparr>)
                [''*.json'']) = ''data/sentinel-1/p1/labels.json'' # []"
    using demo_label_files(1) by simp
  have i43: "init demo_env ''data'' ''test'' ''s1'' 43 None False False False demo_world
         = (Inr (demo_self ''s1'' 43 None),
      demo_world\<lparr>io_log :=
        [PathExists ''data/bigearthnet-train.csv'', PathExists ''data/bigearthnet-val.csv'',
         PathExists ''data/bigearthnet-test.csv'', PathExists ''data/sentinel-1'',
         OpenRead ''data/bigearthnet-test.csv'']\<rparr>)"
    by (rule demo_init_s1) simp
  have i19: "init demo_env ''data'' ''test'' ''s1'' 19 None False False False demo_world
         = (Inr (demo_self ''s1'' 19 None),
      demo_world\<lparr>io_log :=
        [PathExists ''data/bigearthnet-train.csv'', PathExists ''data/bigearthnet-val.csv'',
         PathExists ''data/bigearthnet-test.csv'', PathExists ''data/sentinel-1'',
         OpenRead ''data/bigearthnet-test.csv'']\<rparr>)"
    by (rule demo_init_s1) simp
  have n: "num_classes (demo_self ''s1'' 43 None :: int bigearthnet) = 43"
          "num_classes (demo_self ''s1'' 19 None :: int bigearthnet) = 19"
    by (simp_all add: demo_self_def)
  have f: "fs demo_world = demo_fs" by (simp add: demo_world_def)
  from demo_init_flag_s1 [OF f, of 19 None True] obtain d :: "int bigearthnet" and w1 where
    iflag: "init demo_env ''data'' ''test'' ''s1'' 19 None False False True demo_world
              = (Inr d, w1)"
    and fd: "folders d = [\<lparr>s1 = ''data/sentinel-1/p1'', s2 = ''data/sentinel-2/p1''\<rparr>,
                          \<lparr>s1 = ''data/sentinel-1/p2'', s2 = ''data/sentinel-2/p2''\<rparr>]"
    by auto
  have pd: "py_index (folders d) 0
              = Inr \<lparr>s1 = ''data/sentinel-1/p1'', s2 = ''data/sentinel-2/p1''\<rparr>"
    using fd by (simp add: py_index_def)
  have nd: "num_classes d = 20"
    using init_class_sets(2) [OF iflag] other_notin_19 by (simp add: demo_world_def)
  from pastures_target [OF c i43 demo_folders(1) g demo_label_files(4)]
       pastures_target [OF c i19 demo_folders(1) g demo_label_files(4)]
       pastures_target [OF c iflag pd g demo_label_files(4)] n nd iflag
  show ?thesis by simp
qed

text \<open>
  C6. Every key of the label-converter table is in [0,42] and every value in [0,18];
  so in 19-class mode (19 classes, or 20 with the "other" class) every index of a
  loaded target that is set is at most 18, and what is set there is 1.
\<close>

theorem label_converter_range_and_target_indices:
  "list_all (\<lambda>(k, v). 0 \<le> k \<and> k \<le> 42 \<and> 0 \<le> v \<and> v \<le> 18) label_converter
   \<and> ((num_classes self = 19 \<or> num_classes self = 20)
        \<and> fst (load_target self index w) = Inr t
        \<and> j < length (elems t) \<and> elems t ! j \<noteq> 0
      \<longrightarrow> j \<le> 18 \<and> elems t ! j = 1 \<and> length (elems t) = nat (num_classes self))"
  using label_converter_table_ranges target_indices_19 [of self index w t j] by blast

text \<open>On the small data set: "Sea and ocean" sets index 18.\<close>

theorem label_converter_range_and_target_indices_witness:
  "\<exists>t. fst (load_target (demo_self ''s2'' 19 None :: int bigearthnet) 0 demo_world) = Inr t
      \<and> 18 < length (elems t) \<and> elems t ! 18 \<noteq> 0
      \<and> list_all (\<lambda>(k, v). 0 \<le> k \<and> k \<le> 42 \<and> 0 \<le> v \<and> v \<le> 18) label_converter
      \<and> (18::nat) \<le> 18 \<and> elems t ! 18 = 1 \<and> length (elems t) = 19"
proof -
  let ?t = "\<lparr>shape = [19::nat],
             elems = map (\<lambda>j. if int j \<in> set [18] then 1 else (0::int)) [0 ..< 19]\<rparr>"
  have n: "num_classes (demo_self ''s2'' 19 None :: int bigearthnet) = 19
           \<or> num_classes (demo_self ''s2'' 19 None :: int bigearthnet) = 20"
    by (simp add: demo_self_def)
  have a: "18 < length (elems ?t)" by simp
  have b: "elems ?t ! 18 \<noteq> 0" by simp
  from label_converter_range_and_target_indices
         [of "demo_self ''s2'' 19 None :: int bigearthnet" 0 demo_world ?t 18]
       n demo_target_s2_p1 a b
  show ?thesis by (simp add: demo_self_def)
qed

text \<open>
  C8. Once the label file is found and read: if a label name is not a key of the
  name-to-index lookup, loading fails with the key error of such a name; and in
  19-class mode, if every name is a key, loading succeeds and the target has a 1
  exactly at the 19-class images of the labels, so an index the converter table
  does not hold sets nothing and raises nothing.
\<close>

theorem unknown_label_raises_unmapped_index_dropped:
  assumes "py_index (folders self) index = Inr entry"
      and "glob_paths (fs w) (os_path_join (if bands self = ''s2'' then s2 entry else s1 entry)
             [''*.json'']) = path # others"
      and "load_labels (fs w) path = Inr labels"
    shows "((\<exists>l \<in> set labels. class2idx self l = None) \<longrightarrow>
             (\<exists>l \<in> set labels. class2idx self l = None
                \<and> fst (load_target self index w) = Inl (KeyError l)))
         \<and> ((\<forall>l \<in> set labels. class2idx self l \<noteq> None)
              \<and> (num_classes self = 19 \<or> num_classes self = 20) \<longrightarrow>
             fst (load_target self index w)
               = Inr \<lparr>shape = [nat (num_classes self)],
                      elems = map (\<lambda>j. if \<exists>l \<in> set labels. \<exists>k. class2idx self l = Some k
                                            \<and> label_converter_get k = Some (int j)
                                        then 1 else 0)
                                [0 ..< nat (num_classes self)]\<rparr>)"
proof -
  have t: "fst (load_target self index w) = labels_to_target self labels"
    by (rule load_target_unfold [OF assms])
  have first: "\<exists>l \<in> set labels. class2idx self l = None
                 \<and> labels_to_target self labels = Inl (KeyError l)"
    if "\<exists>l \<in> set labels. class2idx self l = None"
  proof (cases "collect (map (lookup_label self) labels)")
    case (Inl e)
    from collect_map_Inl [OF Inl] obtain l where
      "l \<in> set labels" "lookup_label self l = Inl e" by blast
    then have "class2idx self l = None \<and> e = KeyError l"
      by (auto simp: lookup_label_def split: option.splits)
    with Inl \<open>l \<in> set labels\<close> show ?thesis
      by (auto simp: labels_to_target_def)
  next
    case (Inr indices)
    from that obtain l where l: "l \<in> set labels" "class2idx self l = None" by blast
    then obtain i where "i < length labels" "labels ! i = l" by (auto simp: in_set_conv_nth)
    with collect_map_Inr [OF Inr] have "lookup_label self l = Inr (indices ! i)" by auto
    with l show ?thesis by (simp add: lookup_label_def)
  qed
  have second: "labels_to_target self labels
      = Inr \<lparr>shape = [nat (num_classes self)],
             elems = map (\<lambda>j. if \<exists>l \<in> set labels. \<exists>k. class2idx self l = Some k
                                   \<and> label_converter_get k = Some (int j)
                               then 1 else 0)
                       [0 ..< nat (num_classes self)]\<rparr>"
    if all: "\<forall>l \<in> set labels. class2idx self l \<noteq> None"
    and n: "num_classes self = 19 \<or> num_classes self = 20"
  proof -
    have "\<exists>ys. collect (map (lookup_label self) labels) = Inr ys"
      by (rule collect_map_total) (use all in \<open>auto simp: lookup_label_def\<close>)
    then obtain indices where c: "collect (map (lookup_label self) labels) = Inr indices" ..
    have "set indices = {k. \<exists>l \<in> set labels. class2idx self l = Some k}"
      using collect_map_set [OF c]
      by (auto simp: lookup_label_def split: option.splits)
    then have "int j \<in> set (mapped_indices indices) \<longleftrightarrow>
               (\<exists>l \<in> set labels. \<exists>k. class2idx self l = Some k
                   \<and> label_converter_get k = Some (int j))" for j
      by (auto simp: set_mapped_indices)
    with labels_to_target_19 [OF n, of labels] c show ?thesis by simp
  qed
  from first second t show ?thesis by simp
qed

text \<open>
  On the small data set: "Glacier" raises, and "Airports" (index 5, not in the
  table) is dropped next to "Sea and ocean".
\<close>

theorem unknown_label_raises_unmapped_index_dropped_witness:
  "fst (load_target (demo_self ''s2'' 19 None :: int bigearthnet) 1 demo_world)
     = Inl (KeyError ''Glacier'')
   \<and> class2idx (demo_self ''s2'' 19 None :: int bigearthnet) ''Airports'' = Some 5
   \<and> label_converter_get 5 = None
   \<and> fst (load_target (demo_self ''s2'' 19 None :: int bigearthnet) 0 demo_world)
     = Inr \<lparr>shape = [19], elems = map (\<lambda>j. if j = 18 then 1 else 0) [0 ..< 19]\<rparr>"
proof -
  let ?self = "demo_self ''s2'' 19 None :: int bigearthnet"
  have c: "class2idx ?self ''Pastures'' = Some 17" "class2idx ?self ''Glacier'' = None"
          "class2idx ?self ''Airports'' = Some 5" "class2idx ?self ''Sea and ocean'' = Some 42"
    by (simp_all add: demo_self_def mk_class2idx_pastures mk_class2idx_glacier
          mk_class2idx_airports mk_class2idx_sea)
  have lc: "label_converter_get 5 = None" "label_converter_get 42 = Some 18"
    by (simp_all add: label_converter_get_def label_converter_def)
  have n: "num_classes ?self = 19" by (simp add: demo_self_def)
  have g1: "glob_paths (fs demo_world)
              (os_path_join (if bands ?self = ''s2''
                             then s2 \<lparr>s1 = ''data/sentinel-1/p2'', s2 = ''data/sentinel-2/p2''\<rparr>
                             else s1 \<lparr>s1 = ''data/sentinel-1/p2'', s2 = ''data/sentinel-2/p2''\<rparr>)
                 [''*.json'']) = ''data/sentinel-2/p2/labels.json'' # []"
    by (simp add: demo_self_def demo_label_files)
  have g0: "glob_paths (fs demo_world)
              (os_path_join (if bands ?self = ''s2''
                             then s2 \<lparr>s1 = ''data/sentinel-1/p1'', s2 = ''data/sentinel-2/p1''\<rparr>
                             else s1 \<lparr>s1 = ''data/sentinel-1/p1'', s2 = ''data/sentinel-2/p1''\<rparr>)
                 [''*.json'']) = ''data/sentinel-2/p1/labels.json'' # []"
    by (simp add: demo_self_def demo_label_files)
  from unknown_label_raises_unmapped_index_dropped
         [OF demo_folders(2) g1 demo_label_files(6)] c
  have a: "fst (load_target ?self 1 demo_world) = Inl (KeyError ''Glacier'')"
    by auto
  from unknown_label_raises_unmapped_index_dropped
         [OF demo_folders(1) g0 demo_label_files(5)] c lc n
  have b: "fst (load_target ?self 0 demo_world)
             = Inr \<lparr>shape = [19], elems = map (\<lambda>j. if j = 18 then 1 else 0) [0 ..< 19]\<rparr>"
    by (simp cong: map_cong)
  from a b c(3) lc(1) show ?thesis by simp
qed

subsection \<open>Indexed access\<close>

text \<open>
  C4, as the code has it. When the transform returns a four-dimensional image whose
  second dimension is a singleton (shape (c, 1, h, w)), \<open>__getitem__\<close> squeezes that
  dimension away and returns a three-dimensional image of shape (c, h, w).
\<close>

theorem getitem_squeezes_second_dimension:
  assumes "load_image env self index w = (Inr img, w1)"
      and "load_target self index w1 = (Inr label, w2)"
      and "transforms self = Some f"
      and "f \<lparr>sample_image = img, sample_label = label\<rparr> = Inr sample'"
      and "shape (sample_image sample') = [c, 1, h, v]"
    shows "getitem env self index w
             = (Inr ((sample_image sample')\<lparr>shape := [c, h, v]\<rparr>, sample_label sample'), w2)
         \<and> length (shape ((sample_image sample')\<lparr>shape := [c, h, v]\<rparr>)) = 3"
  using assms by (simp add: getitem_def squeeze_def Let_def)

text \<open>On the small data set, with a transform that adds the dimension at position 1.\<close>

theorem getitem_squeezes_second_dimension_witness:
  "map_sum id (\<lambda>(i, l). shape i)
     (fst (getitem demo_env (demo_self ''s1'' 19 (Some (demo_unsqueeze 1))) 0 demo_world))
   = Inr [2, 120, 120]"
proof -
  let ?self = "demo_self ''s1'' 19 (Some (demo_unsqueeze 1))"
  have f: "fs demo_world = demo_fs" by (simp add: demo_world_def)
  from demo_load_image_s1 [OF f] obtain img w1 where
    i: "load_image demo_env ?self 0 demo_world = (Inr img, w1)"
    and si: "shape img = [2, 120, 120]" and f1: "fs w1 = demo_fs" by blast
  from demo_load_target_s1 [OF f1] obtain label w2 where
    t: "load_target ?self 0 w1 = (Inr label, w2)" by blast
  let ?s = "\<lparr>sample_image = img, sample_label = label\<rparr>"
  let ?s' = "?s\<lparr>sample_image := img\<lparr>shape := take 1 (shape img) @ [1] @ drop 1 (shape img)\<rparr>\<rparr>"
  have tr: "transforms ?self = Some (demo_unsqueeze 1)" by (simp add: demo_self_def)
  have ap: "demo_unsqueeze 1 ?s = Inr ?s'" by (simp add: demo_unsqueeze_def)
  have sh: "shape (sample_image ?s') = [2, 1, 120, 120]" using si by simp
  from getitem_squeezes_second_dimension [OF i t tr ap sh]
  show ?thesis by simp
qed

text \<open>
  C4 as stated fails: when the transform adds the singleton dimension in front
  (shape (1, 2, 120, 120)), the image comes back with its four dimensions.
\<close>

theorem getitem_keeps_leading_singleton_dimension:
  "map_sum id (\<lambda>(i, l). shape i)
     (fst (getitem demo_env (demo_self ''s1'' 19 (Some (demo_unsqueeze 0))) 0 demo_world))
   = Inr [1, 2, 120, 120]"
  by (simp add: getitem_def load_image_def load_paths_def demo_self_def py_index_def
        glob_glob_def log_io_def Let_def demo_world_def demo_fs_def demo_env_def
        os_path_join_def join_step_def startswith_def endswith_def image_size_def
        load_target_def json_load_labels_def labels_to_target_19 lookup_label_def
        mk_class2idx_pastures demo_unsqueeze_def squeeze_def)

end
